theory Spec2Isabelle
  imports Complex_Main "HOL-Library.Sublist"
begin

section \<open>JavaScript strings\<close>

text \<open>
  Strings are \<^typ>\<open>string\<close>. The helpers below are the JavaScript string methods the
  sources call: \<^verbatim>\<open>String.prototype.includes\<close>, \<^verbatim>\<open>toLowerCase\<close> (on the ASCII letters),
  \<^verbatim>\<open>trim\<close> (on the ASCII white space), \<^verbatim>\<open>startsWith\<close> (which is \<^const>\<open>prefix\<close>),
  \<^verbatim>\<open>Array.prototype.join\<close> and the decimal rendering of an integer in a template literal.
\<close>

fun js_includes :: "string \<Rightarrow> string \<Rightarrow> bool" where
  "js_includes [] p = (p = [])"
| "js_includes (c # s) p = (prefix p (c # s) \<or> js_includes s p)"

definition toLowerCase_char :: "char \<Rightarrow> char" where
  "toLowerCase_char c =
     (case map_of (zip ''ABCDEFGHIJKLMNOPQRSTUVWXYZ'' ''abcdefghijklmnopqrstuvwxyz'') c of
        Some l \<Rightarrow> l
      | None \<Rightarrow> c)"

definition toLowerCase :: "string \<Rightarrow> string" where
  "toLowerCase s = map toLowerCase_char s"

definition is_space :: "char \<Rightarrow> bool" where
  "is_space c = (c \<in> set [CHR '' '', CHR 0x09, CHR 0x0A, CHR 0x0B, CHR 0x0C, CHR 0x0D])"

definition trim :: "string \<Rightarrow> string" where
  "trim s = rev (dropWhile is_space (rev (dropWhile is_space s)))"

fun join :: "string \<Rightarrow> string list \<Rightarrow> string" where
  "join sep [] = []"
| "join sep [x] = x"
| "join sep (x # y # ys) = x @ sep @ join sep (y # ys)"

definition digit_char :: "nat \<Rightarrow> char" where
  "digit_char d = ''0123456789'' ! (d mod 10)"

fun string_of_nat :: "nat \<Rightarrow> string" where
  "string_of_nat n = (if n < 10 then [digit_char n] else string_of_nat (n div 10) @ [digit_char n])"

declare string_of_nat.simps [simp del]

definition string_of_int :: "int \<Rightarrow> string" where
  "string_of_int i = (if i < 0 then CHR ''-'' # string_of_nat (nat (- i)) else string_of_nat (nat i))"

section \<open>Errors\<close>

text \<open>
  A thrown value is a JavaScript \<^verbatim>\<open>Error\<close> object: its \<^verbatim>\<open>name\<close> and its \<^verbatim>\<open>message\<close>.
  \<^verbatim>\<open>new Error(msg)\<close> has the name \<^verbatim>\<open>Error\<close>; the vendor client may throw errors of
  other names. A computation that may throw returns \<open>js_error + 'a\<close>, \<open>Inl\<close> the
  thrown error.
\<close>

record js_error =
  name :: string
  message :: string

definition new_Error :: "string \<Rightarrow> js_error" where
  "new_Error msg = \<lparr>name = ''Error'', message = msg\<rparr>"

section \<open>types.ts: models, thinking levels, MIME table\<close>

datatype SupportedTextModel = Gemini3Pro | Gemini3Flash

datatype ThinkingLevelOption = Minimal | Low | Medium | High

fun text_model_name :: "SupportedTextModel \<Rightarrow> string" where
  "text_model_name Gemini3Pro = ''gemini-3-pro''"
| "text_model_name Gemini3Flash = ''gemini-3-flash''"

fun thinking_level_name :: "ThinkingLevelOption \<Rightarrow> string" where
  "thinking_level_name Minimal = ''minimal''"
| "thinking_level_name Low = ''low''"
| "thinking_level_name Medium = ''medium''"
| "thinking_level_name High = ''high''"

definition SUPPORTED_TEXT_MODELS :: "string list" where
  "SUPPORTED_TEXT_MODELS = [''gemini-3-pro'', ''gemini-3-flash'']"

definition SUPPORTED_IMAGE_MODELS :: "string list" where
  "SUPPORTED_IMAGE_MODELS = [''nano-banana'', ''nano-banana-pro'']"

fun TEXT_MODEL_IDS :: "SupportedTextModel \<Rightarrow> string" where
  "TEXT_MODEL_IDS Gemini3Pro = ''gemini-3-pro-preview''"
| "TEXT_MODEL_IDS Gemini3Flash = ''gemini-3-flash-preview''"

definition DEFAULT_TEXT_MODEL :: SupportedTextModel where
  "DEFAULT_TEXT_MODEL = Gemini3Pro"

fun MODEL_THINKING_LEVELS :: "SupportedTextModel \<Rightarrow> ThinkingLevelOption list" where
  "MODEL_THINKING_LEVELS Gemini3Pro = [Low, High]"
| "MODEL_THINKING_LEVELS Gemini3Flash = [Minimal, Low, Medium, High]"

text \<open>\<^verbatim>\<open>validateThinkingLevel\<close>: an error message if the level is invalid, \<open>None\<close>
  (\<^verbatim>\<open>undefined\<close>) if it is valid.\<close>

definition validateThinkingLevel :: "SupportedTextModel \<Rightarrow> ThinkingLevelOption \<Rightarrow> string option" where
  "validateThinkingLevel model level =
     (let supportedLevels = MODEL_THINKING_LEVELS model in
      if level \<notin> set supportedLevels then
        Some (text_model_name model @ '' only supports thinking levels: ''
              @ join '', '' (map thinking_level_name supportedLevels)
              @ ''. Got: '' @ thinking_level_name level)
      else None)"

definition SUPPORTED_MIME_TYPES :: "(string \<times> string) list" where
  "SUPPORTED_MIME_TYPES =
    [(''.jpg'', ''image/jpeg''), (''.jpeg'', ''image/jpeg''), (''.png'', ''image/png''),
     (''.webp'', ''image/webp''), (''.heic'', ''image/heic''), (''.heif'', ''image/heif''),
     (''.wav'', ''audio/wav''), (''.mp3'', ''audio/mp3''), (''.aiff'', ''audio/aiff''),
     (''.aif'', ''audio/aiff''), (''.aac'', ''audio/aac''), (''.ogg'', ''audio/ogg''),
     (''.flac'', ''audio/flac''),
     (''.mp4'', ''video/mp4''), (''.mpeg'', ''video/mpeg''), (''.mpg'', ''video/mpg''),
     (''.mov'', ''video/mov''), (''.avi'', ''video/avi''), (''.flv'', ''video/x-flv''),
     (''.webm'', ''video/webm''), (''.wmv'', ''video/wmv''), (''.3gp'', ''video/3gpp''),
     (''.3gpp'', ''video/3gpp''),
     (''.pdf'', ''application/pdf''),
     (''.txt'', ''text/plain''), (''.md'', ''text/markdown''), (''.html'', ''text/html''),
     (''.htm'', ''text/html''), (''.xml'', ''text/xml''), (''.css'', ''text/css''),
     (''.js'', ''text/javascript''), (''.ts'', ''text/typescript''),
     (''.json'', ''application/json''), (''.csv'', ''text/csv''), (''.rtf'', ''application/rtf'')]"

section \<open>retry.ts\<close>

text \<open>
  The options of \<^verbatim>\<open>withRetry\<close>: every field is optional in the argument and is filled
  from \<^verbatim>\<open>DEFAULT_OPTIONS\<close> by the object spread. \<open>maxRetries\<close> is an integer count, which
  may be negative; the delays (milliseconds) and the multiplier are JavaScript numbers,
  taken here as exact reals.
\<close>

record RetryOptions =
  maxRetries :: "int option"
  initialDelayMs :: "real option"
  maxDelayMs :: "real option"
  backoffMultiplier :: "real option"
  retryableErrors :: "string list option"

record RequiredRetryOptions =
  r_maxRetries :: int
  r_initialDelayMs :: real
  r_maxDelayMs :: real
  r_backoffMultiplier :: real
  r_retryableErrors :: "string list"

definition DEFAULT_OPTIONS :: RequiredRetryOptions where
  "DEFAULT_OPTIONS =
     \<lparr>r_maxRetries = 3, r_initialDelayMs = 1000, r_maxDelayMs = 30000, r_backoffMultiplier = 2,
      r_retryableErrors = [''RATE_LIMIT'', ''ECONNRESET'', ''ETIMEDOUT'', ''ENOTFOUND'',
                           ''429'', ''503'', ''502'']\<rparr>"

definition no_options :: RetryOptions where
  "no_options = \<lparr>maxRetries = None, initialDelayMs = None, maxDelayMs = None,
                  backoffMultiplier = None, retryableErrors = None\<rparr>"

definition or_default :: "'a option \<Rightarrow> 'a \<Rightarrow> 'a" where
  "or_default x d = (case x of Some v \<Rightarrow> v | None \<Rightarrow> d)"

definition merge_options :: "RetryOptions \<Rightarrow> RequiredRetryOptions" where
  "merge_options options =
     \<lparr>r_maxRetries = or_default (maxRetries options) (r_maxRetries DEFAULT_OPTIONS),
      r_initialDelayMs = or_default (initialDelayMs options) (r_initialDelayMs DEFAULT_OPTIONS),
      r_maxDelayMs = or_default (maxDelayMs options) (r_maxDelayMs DEFAULT_OPTIONS),
      r_backoffMultiplier = or_default (backoffMultiplier options) (r_backoffMultiplier DEFAULT_OPTIONS),
      r_retryableErrors = or_default (retryableErrors options) (r_retryableErrors DEFAULT_OPTIONS)\<rparr>"

definition isRetryableError :: "js_error \<Rightarrow> string list \<Rightarrow> bool" where
  "isRetryableError error retryablePatterns =
     list_ex (\<lambda>pattern. js_includes (message error) pattern
                        \<or> js_includes (toLowerCase (message error)) (toLowerCase pattern))
             retryablePatterns"

text \<open>
  The result of a run of \<^verbatim>\<open>withRetry\<close>: what it returns or throws, how many times it
  invoked the operation, and the delays it slept, in order. The operation \<open>fn\<close> is
  effectful: \<open>fn k\<close> is the outcome of its invocation number \<open>k\<close> (from 0).
\<close>

record 'a retry_run =
  outcome :: "js_error + 'a"
  invocations :: nat
  sleeps :: "real list"

function retry_loop ::
  "(nat \<Rightarrow> js_error + 'a) \<Rightarrow> RequiredRetryOptions \<Rightarrow> int \<Rightarrow> real \<Rightarrow> js_error option
     \<Rightarrow> nat \<Rightarrow> real list \<Rightarrow> 'a retry_run" where
  "retry_loop fn opts attempt delay lastError calls slept =
     (if attempt \<le> r_maxRetries opts + 1 then
        (case fn calls of
           Inr v \<Rightarrow> \<lparr>outcome = Inr v, invocations = Suc calls, sleeps = slept\<rparr>
         | Inl error \<Rightarrow>
             (let isRetryable = isRetryableError error (r_retryableErrors opts);
                  hasRetriesLeft = (attempt \<le> r_maxRetries opts)
              in if \<not> isRetryable \<or> \<not> hasRetriesLeft
                 then \<lparr>outcome = Inl error, invocations = Suc calls, sleeps = slept\<rparr>
                 else retry_loop fn opts (attempt + 1)
                        (min (delay * r_backoffMultiplier opts) (r_maxDelayMs opts))
                        (Some error) (Suc calls) (slept @ [delay])))
      else \<lparr>outcome = Inl (case lastError of Some e \<Rightarrow> e
                            | None \<Rightarrow> new_Error ''Retry failed with unknown error''),
            invocations = calls, sleeps = slept\<rparr>)"
  by pat_completeness auto
termination
  by (relation "measure (\<lambda>(fn, opts, attempt, delay, lastError, calls, slept).
                           nat (r_maxRetries opts + 2 - attempt))") auto

declare retry_loop.simps [simp del]

definition withRetry :: "(nat \<Rightarrow> js_error + 'a) \<Rightarrow> RetryOptions \<Rightarrow> 'a retry_run" where
  "withRetry fn options =
     (let opts = merge_options options
      in retry_loop fn opts 1 (r_initialDelayMs opts) None 0 [])"

text \<open>
  \<^verbatim>\<open>setTimeout\<close> is Node's, not this repository's: a delay that is not between 1 and
  \<open>TIMEOUT_MAX\<close> (\<open>2^31 - 1\<close>) milliseconds is replaced by 1 millisecond.
\<close>

definition TIMEOUT_MAX :: nat where
  "TIMEOUT_MAX = 2147483647"

definition setTimeout_delay :: "nat \<Rightarrow> nat" where
  "setTimeout_delay after = (if 1 \<le> after \<and> after \<le> TIMEOUT_MAX then after else 1)"

text \<open>
  \<^verbatim>\<open>withTimeout\<close> races the operation against a timer. In virtual time an invocation of
  the operation either never settles (\<open>None\<close>) or settles after \<open>t\<close> milliseconds with a
  result; the timer rejects when \<^verbatim>\<open>setTimeout\<close> fires it, with a message that embeds
  \<open>timeoutMs\<close> as it was passed. The race returns the first to settle, with the time at
  which it does; the operation, which is started before the timer is armed, wins a tie.
  The operation goes on after a lost race: nothing cancels it.
\<close>

type_synonym 'a settlement = "(nat \<times> (js_error + 'a)) option"

definition timeout_error :: "nat \<Rightarrow> js_error" where
  "timeout_error timeoutMs =
     new_Error (''TIMEOUT: Operation timed out after '' @ string_of_nat timeoutMs @ ''ms'')"

definition withTimeout :: "'a settlement \<Rightarrow> nat \<Rightarrow> nat \<times> (js_error + 'a)" where
  "withTimeout fn timeoutMs =
     (let fires = setTimeout_delay timeoutMs in
      case fn of
        Some (t, r) \<Rightarrow> if t \<le> fires then (t, r) else (fires, Inl (timeout_error timeoutMs))
      | None \<Rightarrow> (fires, Inl (timeout_error timeoutMs)))"


section \<open>node:path\<close>

text \<open>
  \<^verbatim>\<open>extname\<close> and \<^verbatim>\<open>dirname\<close> are functions of Node's \<^verbatim>\<open>path\<close> module, not of this
  repository; they are written here after Node's POSIX implementation. \<open>extname\<close> looks
  at the last component of the path, trailing slashes ignored, and returns what starts at
  its last dot, unless that dot opens the component or the component is \<^verbatim>\<open>..\<close>.
  \<open>dirname\<close> never inspects the first character except to see whether the path is rooted.
\<close>

definition is_slash :: "char \<Rightarrow> bool" where
  "is_slash c = (c = CHR ''/'')"

definition is_dot :: "char \<Rightarrow> bool" where
  "is_dot c = (c = CHR ''.'')"

definition last_component :: "string \<Rightarrow> string" where
  "last_component path =
     rev (takeWhile (\<lambda>c. \<not> is_slash c) (dropWhile is_slash (rev path)))"

definition extname :: "string \<Rightarrow> string" where
  "extname path =
     (let part = last_component path;
          after_dot = rev (takeWhile (\<lambda>c. \<not> is_dot c) (rev part));
          before_dot = take (length part - length after_dot - 1) part
      in if length after_dot = length part then []
         else if before_dot = [] then []
         else if part = ''..'' then []
         else CHR ''.'' # after_dot)"

definition dirname :: "string \<Rightarrow> string" where
  "dirname path =
     (if path = [] then ''.''
      else
        let hasRoot = is_slash (hd path);
            kept = dropWhile (\<lambda>c. \<not> is_slash c) (dropWhile is_slash (rev (tl path)));
            cut = length kept
        in if cut = 0 then (if hasRoot then ''/'' else ''.'')
           else if hasRoot \<and> cut = 1 then ''//''
           else take cut path)"

section \<open>The vendor boundary and the environment\<close>

text \<open>
  What a provider sends to \<^verbatim>\<open>client.models.generateContent\<close> and what comes back.
  An absent \<^verbatim>\<open>candidates\<close> array, and absent \<^verbatim>\<open>content.parts\<close>, are the empty list: the
  sources treat the two alike. A string that is \<^verbatim>\<open>undefined\<close> where the sources test it
  for truthiness is \<open>None\<close>.
\<close>

datatype content_item =
    text_item string
  | inlineData_item string string
  | string_item string

datatype contents = Plain string | Items "content_item list"

datatype gen_config =
    TextConfig int real string bool
  | ImageConfig "string list" "string option"

record request =
  req_model :: string
  req_contents :: contents
  req_config :: gen_config

record inline_data =
  inline_payload :: string
  inline_mimeType :: "string option"

record response_part =
  part_text :: "string option"
  thought :: bool
  inlineData :: "inline_data option"

type_synonym candidate = "response_part list"

record usage_metadata =
  promptTokenCount :: "int option"
  candidatesTokenCount :: "int option"
  totalTokenCount :: "int option"
  thoughtsTokenCount :: "int option"

record response =
  response_text :: "string option"
  candidates :: "candidate list"
  usageMetadata :: "usage_metadata option"

record UsageInfo =
  promptTokens :: "int option"
  completionTokens :: "int option"
  totalTokens :: "int option"
  thoughtsTokens :: "int option"

record GenerateResult =
  result_text :: "string option"
  imagePath :: "string option"
  result_usage :: "UsageInfo option"
  result_model :: string

text \<open>
  The REST responses of the interactions endpoint, as far as the research provider reads
  them. For a failed start, \<open>start_parsed\<close> is what the \<^verbatim>\<open>try\<close> block around
  \<^verbatim>\<open>JSON.parse\<close> extracts: \<open>None\<close> if the block throws, otherwise \<^verbatim>\<open>error.message\<close> (if
  any) and whether some detail carries the reason \<^verbatim>\<open>API_KEY_INVALID\<close>.
\<close>

record InteractionResponse =
  interaction_id :: "string option"
  interaction_status :: string
  outputs :: "string option list option"
  interaction_error :: "string option"

datatype start_http =
    StartNotOk int string "(string option \<times> bool) option"
  | StartOk "js_error + InteractionResponse"

datatype poll_http =
    PollNotOk int string
  | PollOk "js_error + InteractionResponse"

text \<open>
  The world a call runs in. The file system answers \<^verbatim>\<open>existsSync\<close> and \<^verbatim>\<open>readFileSync\<close>
  (base64 text, or a throw), and \<^verbatim>\<open>mkdirSync\<close> and \<^verbatim>\<open>writeFileSync\<close> succeed (\<open>None\<close>) or
  throw. \<open>generateContent env req k\<close> is the settlement of the vendor call number \<open>k\<close> of
  a run. \<open>Date_now env k\<close> is what the call number \<open>k\<close> of \<^verbatim>\<open>Date.now()\<close> returns.
  \<open>fetch_start\<close> is the POST that starts a research task and \<open>fetch_poll env id k\<close> the
  GET number \<open>k\<close> on task \<open>id\<close>; a \<^verbatim>\<open>fetch\<close> may reject.
\<close>

record env =
  existsSync :: "string \<Rightarrow> bool"
  readFileSync :: "string \<Rightarrow> js_error + string"
  mkdirSync :: "string \<Rightarrow> js_error option"
  writeFileSync :: "string \<Rightarrow> string \<Rightarrow> js_error option"
  generateContent :: "request \<Rightarrow> nat \<Rightarrow> response settlement"
  Date_now :: "nat \<Rightarrow> int"
  fetch_start :: "string \<Rightarrow> js_error + start_http"
  fetch_poll :: "string \<Rightarrow> nat \<Rightarrow> js_error + poll_http"

definition truthy :: "string option \<Rightarrow> bool" where
  "truthy x = (case x of None \<Rightarrow> False | Some s \<Rightarrow> s \<noteq> [])"

definition dquote :: string where
  "dquote = [CHR 0x22]"

definition newline :: string where
  "newline = [CHR 0x0A]"


section \<open>providers/gemini-text.ts\<close>

fun THINKING_LEVEL_MAP :: "ThinkingLevelOption \<Rightarrow> string" where
  "THINKING_LEVEL_MAP Minimal = ''MINIMAL''"
| "THINKING_LEVEL_MAP Low = ''LOW''"
| "THINKING_LEVEL_MAP Medium = ''MEDIUM''"
| "THINKING_LEVEL_MAP High = ''HIGH''"

definition getMimeType :: "string \<Rightarrow> js_error + string" where
  "getMimeType filePath =
     (let ext = toLowerCase (extname filePath) in
      case map_of SUPPORTED_MIME_TYPES ext of
        None \<Rightarrow>
          (let supportedExts = join '', '' (map fst SUPPORTED_MIME_TYPES) in
           Inl (new_Error (''Unsupported file type '' @ dquote @ ext @ dquote
                           @ ''. Supported types: '' @ supportedExts)))
      | Some mimeType \<Rightarrow> Inr mimeType)"

definition TEXT_DEFAULT_TIMEOUT_MS :: nat where
  "TEXT_DEFAULT_TIMEOUT_MS = 300000"

definition provider_retry_options :: RetryOptions where
  "provider_retry_options =
     \<lparr>maxRetries = Some 2, initialDelayMs = None, maxDelayMs = None, backoffMultiplier = None,
      retryableErrors = Some [''RATE_LIMIT'', ''429'', ''503'', ''502'', ''ECONNRESET'', ''ETIMEDOUT'']\<rparr>"

text \<open>
  The vendor call as both providers make it: \<^verbatim>\<open>withRetry\<close> around \<^verbatim>\<open>withTimeout\<close> around
  \<^verbatim>\<open>generateContent\<close>, so that every attempt has its own timer.
\<close>

definition vendor_run :: "env \<Rightarrow> request \<Rightarrow> nat \<Rightarrow> response retry_run" where
  "vendor_run e req timeoutMs =
     withRetry (\<lambda>k. snd (withTimeout (generateContent e req k) timeoutMs)) provider_retry_options"

record TextGenerateOptions =
  opt_prompt :: string
  opt_systemPrompt :: "string option"
  opt_model :: "SupportedTextModel option"
  opt_thinkingLevel :: "ThinkingLevelOption option"
  opt_maxTokens :: "int option"
  opt_temperature :: "real option"
  opt_files :: "string list option"

text \<open>
  A run of \<^verbatim>\<open>GeminiTextProvider.generate\<close>: what it returns or throws, how many vendor
  calls it made, and the paths it passed to \<^verbatim>\<open>readFileSync\<close>, in order. Log lines are
  not part of the model.
\<close>

record text_run =
  text_outcome :: "js_error + GenerateResult"
  text_vendor_calls :: nat
  files_read :: "string list"

text \<open>The loop over \<^verbatim>\<open>files\<close>, which stops at the first throw.\<close>

fun add_files ::
  "env \<Rightarrow> string list \<Rightarrow> content_item list \<Rightarrow> string list
     \<Rightarrow> (js_error + content_item list) \<times> string list" where
  "add_files e [] contents reads = (Inr contents, reads)"
| "add_files e (filePath # rest) contents reads =
     (if \<not> existsSync e filePath
      then (Inl (new_Error (''File not found: '' @ filePath)), reads)
      else case getMimeType filePath of
             Inl err \<Rightarrow> (Inl err, reads)
           | Inr mimeType \<Rightarrow>
               (case readFileSync e filePath of
                  Inl err \<Rightarrow> (Inl err, reads @ [filePath])
                | Inr data \<Rightarrow>
                    add_files e rest (contents @ [inlineData_item mimeType data])
                      (reads @ [filePath])))"

text \<open>The loop over the parts of the first candidate: answer text and thought summary.\<close>

fun collect_parts :: "response_part list \<Rightarrow> string \<Rightarrow> string \<Rightarrow> string \<times> string" where
  "collect_parts [] text thoughtSummary = (text, thoughtSummary)"
| "collect_parts (part # rest) text thoughtSummary =
     (case part_text part of
        None \<Rightarrow> collect_parts rest text thoughtSummary
      | Some t \<Rightarrow>
          if t = [] then collect_parts rest text thoughtSummary
          else if thought part then collect_parts rest text (thoughtSummary @ t @ newline)
          else collect_parts rest (text @ t) thoughtSummary)"

definition text_demux :: "response \<Rightarrow> SupportedTextModel \<Rightarrow> GenerateResult" where
  "text_demux response model =
     (let (text, thoughtSummary) =
            (if truthy (response_text response) then (or_default (response_text response) [], [])
             else case candidates response of
                    [] \<Rightarrow> ([], [])
                  | c # cs \<Rightarrow> collect_parts c [] []);
          usage = (case usageMetadata response of
                     None \<Rightarrow> None
                   | Some u \<Rightarrow> Some \<lparr>promptTokens = promptTokenCount u,
                                      completionTokens = candidatesTokenCount u,
                                      totalTokens = totalTokenCount u,
                                      thoughtsTokens = thoughtsTokenCount u\<rparr>);
          finalText = (if thoughtSummary \<noteq> []
                       then text @ newline @ newline @ ''---'' @ newline
                            @ ''**Thinking Summary:**'' @ newline @ thoughtSummary
                       else text)
      in \<lparr>result_text = Some finalText, imagePath = None, result_usage = usage,
          result_model = text_model_name model\<rparr>)"

text \<open>The \<^verbatim>\<open>catch\<close> block of \<^verbatim>\<open>generate\<close>: the error it rethrows.\<close>

definition text_catch :: "js_error \<Rightarrow> js_error" where
  "text_catch error =
     (let msg = message error;
          (errorType, errorMessage) =
            (if js_includes msg ''API key'' \<or> js_includes msg ''API_KEY''
             then (''AUTH_ERROR'', ''Invalid or missing Gemini API key'')
             else if js_includes msg ''quota'' \<or> js_includes msg ''rate'' \<or> js_includes msg ''429''
             then (''RATE_LIMIT'', ''Gemini API rate limit or quota exceeded. Please wait and retry.'')
             else if js_includes msg ''safety''
             then (''SAFETY_BLOCK'', ''Content was blocked by Gemini safety filters'')
             else if js_includes msg ''blocked''
             then (''CONTENT_BLOCKED'', ''Request was blocked. Try rephrasing the prompt.'')
             else if js_includes msg ''TIMEOUT''
             then (''TIMEOUT'', ''Request timed out. The prompt may be too complex or the service is slow.'')
             else (''GENERATION_ERROR'',
                   if msg \<noteq> [] then msg else ''Unknown error during generation''))
      in new_Error (errorType @ '': '' @ errorMessage))"

definition GeminiTextProvider_generate :: "env \<Rightarrow> TextGenerateOptions \<Rightarrow> text_run" where
  "GeminiTextProvider_generate e options =
     (let model = or_default (opt_model options) DEFAULT_TEXT_MODEL;
          thinkingLevel = or_default (opt_thinkingLevel options) High;
          maxTokens = or_default (opt_maxTokens options) 65536;
          temperature = or_default (opt_temperature options) 0.7;
          files = or_default (opt_files options) [];
          apiModelId = TEXT_MODEL_IDS model
      in case validateThinkingLevel model thinkingLevel of
           Some validationError \<Rightarrow>
             \<lparr>text_outcome = Inl (new_Error (''VALIDATION_ERROR: '' @ validationError)),
              text_vendor_calls = 0, files_read = []\<rparr>
         | None \<Rightarrow>
             (let textPrompt =
                    (if truthy (opt_systemPrompt options)
                     then ''<system>'' @ newline @ or_default (opt_systemPrompt options) []
                          @ newline @ ''</system>'' @ newline @ newline @ opt_prompt options
                     else opt_prompt options)
              in case add_files e files [] [] of
                   (Inl err, reads) \<Rightarrow>
                     \<lparr>text_outcome = Inl err, text_vendor_calls = 0, files_read = reads\<rparr>
                 | (Inr attached, reads) \<Rightarrow>
                     (let contents = attached @ [text_item textPrompt];
                          config = TextConfig maxTokens temperature
                                     (THINKING_LEVEL_MAP thinkingLevel) True;
                          req = \<lparr>req_model = apiModelId, req_contents = Items contents,
                                 req_config = config\<rparr>;
                          run = vendor_run e req TEXT_DEFAULT_TIMEOUT_MS
                      in case outcome run of
                           Inr response \<Rightarrow>
                             \<lparr>text_outcome = Inr (text_demux response model),
                              text_vendor_calls = invocations run, files_read = reads\<rparr>
                         | Inl error \<Rightarrow>
                             \<lparr>text_outcome = Inl (text_catch error),
                              text_vendor_calls = invocations run, files_read = reads\<rparr>)))"

section \<open>providers/gemini-image.ts\<close>

datatype SupportedImageModel = NanoBanana | NanoBananaPro

fun image_model_name :: "SupportedImageModel \<Rightarrow> string" where
  "image_model_name NanoBanana = ''nano-banana''"
| "image_model_name NanoBananaPro = ''nano-banana-pro''"

fun IMAGE_MODEL_IDS :: "SupportedImageModel \<Rightarrow> string" where
  "IMAGE_MODEL_IDS NanoBanana = ''gemini-2.5-flash-preview-image-generation''"
| "IMAGE_MODEL_IDS NanoBananaPro = ''gemini-2.0-flash-exp-image-generation''"

fun MAX_REFERENCE_IMAGES :: "SupportedImageModel \<Rightarrow> nat" where
  "MAX_REFERENCE_IMAGES NanoBanana = 3"
| "MAX_REFERENCE_IMAGES NanoBananaPro = 14"

definition IMAGE_DEFAULT_TIMEOUT_MS :: nat where
  "IMAGE_DEFAULT_TIMEOUT_MS = 180000"

definition VALID_ASPECT_RATIOS :: "string list" where
  "VALID_ASPECT_RATIOS =
     [''1:1'', ''2:3'', ''3:2'', ''3:4'', ''4:3'', ''4:5'', ''5:4'', ''9:16'', ''16:9'', ''21:9'']"

record ImageGenerateOptions =
  image_prompt :: string
  outputPath :: string
  image_model :: "SupportedImageModel option"
  referenceImages :: "string list option"
  aspectRatio :: "string option"

text \<open>
  A run of \<^verbatim>\<open>GeminiImageProvider.generate\<close>: what it returns or throws, how many vendor
  calls it made, and the calls of \<^verbatim>\<open>mkdirSync\<close> and \<^verbatim>\<open>writeFileSync\<close> it made, in order.
  \<open>WriteFile p d\<close> writes to \<open>p\<close> the bytes that the base64 text \<open>d\<close> decodes to.
\<close>

datatype fs_op = Mkdir string | WriteFile string string

record image_run =
  image_outcome :: "js_error + GenerateResult"
  image_vendor_calls :: nat
  fs_ops :: "fs_op list"

text \<open>
  The match of \<^verbatim>\<open>/^data:([^;]+);base64,(.+)$/\<close>: the MIME type runs to the first semicolon
  and the payload, to the end of the string, holds no line terminator.
\<close>

definition match_data_url :: "string \<Rightarrow> (string \<times> string) option" where
  "match_data_url s =
     (if prefix ''data:'' s then
        (let rest = drop 5 s;
             mime = takeWhile (\<lambda>c. c \<noteq> CHR '';'') rest;
             tail = dropWhile (\<lambda>c. c \<noteq> CHR '';'') rest;
             payload = drop 8 tail
         in if mime \<noteq> [] \<and> prefix '';base64,'' tail \<and> payload \<noteq> []
               \<and> CHR 0x0A \<notin> set payload \<and> CHR 0x0D \<notin> set payload
            then Some (mime, payload) else None)
      else None)"

definition reference_part :: "string \<Rightarrow> content_item" where
  "reference_part referenceImage =
     (case (if prefix ''data:'' referenceImage then match_data_url referenceImage else None) of
        Some (mimeType, imageData) \<Rightarrow> inlineData_item mimeType imageData
      | None \<Rightarrow> inlineData_item ''image/png'' referenceImage)"

text \<open>
  The scan for the image: in each candidate the first part with \<^verbatim>\<open>inlineData\<close> sets
  \<^verbatim>\<open>imageData\<close>, and the scan stops at the first candidate that leaves it truthy.
\<close>

fun scan_candidates :: "candidate list \<Rightarrow> string option \<Rightarrow> string option" where
  "scan_candidates [] imageData = imageData"
| "scan_candidates (c # cs) imageData =
     (let imageData' = (case List.find (\<lambda>part. inlineData part \<noteq> None) c of
                          Some part \<Rightarrow> map_option inline_payload (inlineData part)
                        | None \<Rightarrow> imageData)
      in if truthy imageData' then imageData' else scan_candidates cs imageData')"

definition image_catch :: "js_error \<Rightarrow> js_error" where
  "image_catch error =
     (let msg = message error;
          (errorType, errorMessage) =
            (if js_includes msg ''API key'' \<or> js_includes msg ''API_KEY''
             then (''AUTH_ERROR'', ''Invalid or missing Gemini API key'')
             else if js_includes msg ''quota'' \<or> js_includes msg ''rate'' \<or> js_includes msg ''429''
             then (''RATE_LIMIT'', ''Gemini API rate limit or quota exceeded. Please wait and retry.'')
             else if js_includes msg ''safety''
             then (''SAFETY_BLOCK'', ''Image was blocked by Gemini safety filters'')
             else if js_includes msg ''blocked''
             then (''CONTENT_BLOCKED'', ''Request was blocked. Try rephrasing the prompt.'')
             else if js_includes msg ''TIMEOUT''
             then (''TIMEOUT'', ''Request timed out. The image generation may be taking too long.'')
             else (''GENERATION_ERROR'',
                   if msg \<noteq> [] then msg else ''Unknown error during image generation''))
      in new_Error (errorType @ '': '' @ errorMessage))"

text \<open>The \<^verbatim>\<open>try\<close> block of \<^verbatim>\<open>generate\<close> after a response has arrived.\<close>

definition save_image ::
  "env \<Rightarrow> ImageGenerateOptions \<Rightarrow> SupportedImageModel \<Rightarrow> response \<Rightarrow> nat \<Rightarrow> image_run" where
  "save_image e options model response calls =
     (let imageData = scan_candidates (candidates response) None in
      if \<not> truthy imageData
      then \<lparr>image_outcome = Inl (image_catch (new_Error ''No image data found in response'')),
            image_vendor_calls = calls, fs_ops = []\<rparr>
      else
        (let outputDir = dirname (outputPath options);
             make = (outputDir \<noteq> [] \<and> \<not> existsSync e outputDir);
             made = (if make then [Mkdir outputDir] else [])
         in case (if make then mkdirSync e outputDir else None) of
              Some err \<Rightarrow>
                \<lparr>image_outcome = Inl (image_catch err), image_vendor_calls = calls, fs_ops = made\<rparr>
            | None \<Rightarrow>
                (let written = made @ [WriteFile (outputPath options) (or_default imageData [])]
                 in case writeFileSync e (outputPath options) (or_default imageData []) of
                      Some err \<Rightarrow>
                        \<lparr>image_outcome = Inl (image_catch err), image_vendor_calls = calls,
                         fs_ops = written\<rparr>
                    | None \<Rightarrow>
                        (let usage = (case usageMetadata response of
                                        None \<Rightarrow> None
                                      | Some u \<Rightarrow>
                                          Some \<lparr>promptTokens = promptTokenCount u,
                                                completionTokens = candidatesTokenCount u,
                                                totalTokens = totalTokenCount u,
                                                thoughtsTokens = None\<rparr>)
                         in \<lparr>image_outcome =
                               Inr \<lparr>result_text = None, imagePath = Some (outputPath options),
                                    result_usage = usage, result_model = image_model_name model\<rparr>,
                             image_vendor_calls = calls, fs_ops = written\<rparr>))))"

text \<open>The request \<^verbatim>\<open>generate\<close> assembles: contents, configuration and model id.\<close>

definition image_request :: "ImageGenerateOptions \<Rightarrow> request" where
  "image_request options =
     (let model = or_default (image_model options) NanoBanana;
          referenceImages = or_default (referenceImages options) [];
          contents = (if length referenceImages > 0
                      then Items (map reference_part referenceImages
                                  @ [string_item (image_prompt options)])
                      else Plain (image_prompt options));
          config = ImageConfig [''image'', ''text'']
                     (if truthy (aspectRatio options) then aspectRatio options else None)
      in \<lparr>req_model = IMAGE_MODEL_IDS model, req_contents = contents, req_config = config\<rparr>)"

definition GeminiImageProvider_generate :: "env \<Rightarrow> ImageGenerateOptions \<Rightarrow> image_run" where
  "GeminiImageProvider_generate e options =
     (let model = or_default (image_model options) NanoBanana;
          referenceImages = or_default (referenceImages options) []
      in if truthy (aspectRatio options)
            \<and> or_default (aspectRatio options) [] \<notin> set VALID_ASPECT_RATIOS
         then \<lparr>image_outcome =
                 Inl (new_Error (''Invalid aspect ratio '' @ dquote
                                 @ or_default (aspectRatio options) [] @ dquote
                                 @ ''. Valid options: '' @ join '', '' VALID_ASPECT_RATIOS)),
               image_vendor_calls = 0, fs_ops = []\<rparr>
         else
           (let maxImages = MAX_REFERENCE_IMAGES model in
            if length referenceImages > maxImages
            then \<lparr>image_outcome =
                    Inl (new_Error (''Maximum '' @ string_of_nat maxImages
                                    @ '' reference images allowed for '' @ image_model_name model)),
                  image_vendor_calls = 0, fs_ops = []\<rparr>
            else
              (let run = vendor_run e (image_request options) IMAGE_DEFAULT_TIMEOUT_MS
               in case outcome run of
                    Inr response \<Rightarrow> save_image e options model response (invocations run)
                  | Inl error \<Rightarrow>
                      \<lparr>image_outcome = Inl (image_catch error),
                       image_vendor_calls = invocations run, fs_ops = []\<rparr>)))"


section \<open>providers/deep-research.ts\<close>

definition RESEARCH_DEFAULT_TIMEOUT_MS :: int where
  "RESEARCH_DEFAULT_TIMEOUT_MS = 30 * 60 * 1000"

definition DEFAULT_POLL_INTERVAL_MS :: int where
  "DEFAULT_POLL_INTERVAL_MS = 10 * 1000"

record DeepResearchOptions =
  research_query :: string
  research_timeoutMs :: "int option"
  research_pollIntervalMs :: "int option"

record poll_result =
  poll_text :: string
  poll_status :: string
  poll_model :: string

record DeepResearchResult =
  research_text :: string
  research_status :: string
  research_model :: string
  interactionId :: string
  durationMs :: int

definition startResearch :: "env \<Rightarrow> string \<Rightarrow> js_error + string" where
  "startResearch e q =
     (case fetch_start e q of
        Inl err \<Rightarrow> Inl err
      | Inr (StartNotOk status errorText parsed) \<Rightarrow>
          (let fallback = ''Failed to start research: '' @ string_of_int status;
               (errorMessage, isAuthError) =
                 (case parsed of
                    None \<Rightarrow> (if errorText \<noteq> [] then errorText else fallback, False)
                  | Some (msg, hasApiKeyInvalid) \<Rightarrow>
                      (if truthy msg then or_default msg [] else fallback, hasApiKeyInvalid))
           in if isAuthError \<or> status = 401 \<or> status = 403
              then Inl (new_Error (''AUTH_ERROR: '' @ errorMessage))
              else if status = 429
              then Inl (new_Error (''RATE_LIMIT: '' @ errorMessage))
              else Inl (new_Error (''API_ERROR: '' @ errorMessage)))
      | Inr (StartOk (Inl err)) \<Rightarrow> Inl err
      | Inr (StartOk (Inr d)) \<Rightarrow>
          if \<not> truthy (interaction_id d)
          then Inl (new_Error ''API_ERROR: No interaction ID returned from API'')
          else Inr (or_default (interaction_id d) []))"

text \<open>\<^verbatim>\<open>Math.round(elapsed / 1000 / 60)\<close>: the nearest integer, halves rounded up.\<close>

definition round_minutes :: "int \<Rightarrow> int" where
  "round_minutes elapsed = (elapsed + 30000) div 60000"

definition research_timeout_error :: "int \<Rightarrow> string \<Rightarrow> js_error" where
  "research_timeout_error elapsed interaction =
     (let minutes = round_minutes elapsed in
      new_Error (''TIMEOUT: Research timed out after '' @ string_of_int minutes @ '' minutes. ''
                 @ ''The research may still be running - interaction ID: '' @ interaction))"

text \<open>
  \<^verbatim>\<open>data.outputs?.map((output) => output.text).filter(Boolean).join("\n\n") || ""\<close>
\<close>

definition output_text :: "InteractionResponse \<Rightarrow> string" where
  "output_text d =
     (case outputs d of
        None \<Rightarrow> []
      | Some outs \<Rightarrow> join (newline @ newline) (map (\<lambda>t. or_default t []) (filter truthy outs)))"

text \<open>
  The poll loop. Round \<open>k\<close> reads the clock (\<^verbatim>\<open>Date.now()\<close> call number \<open>k + 1\<close>, the
  call number 0 being the \<^verbatim>\<open>startTime\<close> of \<^verbatim>\<open>research\<close>), gives up if the budget is
  exceeded, and otherwise sends the GET number \<open>k\<close>. The loop has no bound of its own:
  the result is \<open>None\<close> if it never returns, and otherwise what it returns or throws
  together with the round in which it does.
\<close>

partial_function (option) pollForCompletion ::
  "env \<Rightarrow> string \<Rightarrow> int \<Rightarrow> int \<Rightarrow> int \<Rightarrow> nat \<Rightarrow> ((js_error + poll_result) \<times> nat) option" where
  "pollForCompletion e interaction timeout pollInterval startTime k =
     (let elapsed = Date_now e (Suc k) - startTime in
      if elapsed > timeout then Some (Inl (research_timeout_error elapsed interaction), k)
      else case fetch_poll e interaction k of
             Inl err \<Rightarrow> Some (Inl err, k)
           | Inr (PollNotOk status errorText) \<Rightarrow>
               Some (Inl (new_Error (''API_ERROR: Failed to poll research status: ''
                                     @ string_of_int status @ '' - '' @ errorText)), k)
           | Inr (PollOk (Inl err)) \<Rightarrow> Some (Inl err, k)
           | Inr (PollOk (Inr d)) \<Rightarrow>
               if interaction_status d = ''completed'' then
                 (let text = output_text d in
                  if text = []
                  then Some (Inl (new_Error ''API_ERROR: Research completed but no output text found''), k)
                  else Some (Inr \<lparr>poll_text = text, poll_status = ''completed'',
                                  poll_model = ''deep-research''\<rparr>, k))
               else if interaction_status d = ''failed'' then
                 Some (Inl (new_Error (''RESEARCH_FAILED: ''
                        @ (if truthy (interaction_error d) then or_default (interaction_error d) []
                           else ''Research failed with unknown error''))), k)
               else pollForCompletion e interaction timeout pollInterval startTime (Suc k))"

definition research :: "env \<Rightarrow> DeepResearchOptions \<Rightarrow> (js_error + DeepResearchResult) option" where
  "research e options =
     (let timeout = or_default (research_timeoutMs options) RESEARCH_DEFAULT_TIMEOUT_MS;
          pollInterval = or_default (research_pollIntervalMs options) DEFAULT_POLL_INTERVAL_MS;
          startTime = Date_now e 0
      in case startResearch e (research_query options) of
           Inl err \<Rightarrow> Some (Inl err)
         | Inr interaction \<Rightarrow>
             (case pollForCompletion e interaction timeout pollInterval startTime 0 of
                None \<Rightarrow> None
              | Some (Inl err, k) \<Rightarrow> Some (Inl err)
              | Some (Inr r, k) \<Rightarrow>
                  Some (Inr \<lparr>research_text = poll_text r, research_status = poll_status r,
                             research_model = poll_model r, interactionId = interaction,
                             durationMs = Date_now e (k + 2) - startTime\<rparr>)))"

section \<open>index.ts: the tool handler\<close>

text \<open>
  The handler of \<^verbatim>\<open>CallToolRequestSchema\<close>, in the version of \<^verbatim>\<open>index.ts\<close> that serves
  \<^verbatim>\<open>deep_research\<close>. A tool call carries the arguments as the handler casts them. A
  model argument is a supported model or some other, unknown name. \<^verbatim>\<open>list_models\<close>,
  which has no failing path, is left out; \<open>other_tool\<close> is a call of any name the handler
  does not know.
\<close>

datatype 'm model_arg = Supported 'm | Unsupported string

record generate_text_args =
  gt_prompt :: string
  gt_model :: "SupportedTextModel model_arg option"
  gt_system_prompt :: "string option"
  gt_thinking_level :: "ThinkingLevelOption option"
  gt_max_tokens :: "int option"
  gt_temperature :: "real option"
  gt_files :: "string list option"

record generate_image_args =
  gi_prompt :: string
  gi_output_path :: string
  gi_model :: "SupportedImageModel model_arg option"
  gi_reference_images :: "string list option"
  gi_aspect_ratio :: "string option"

record deep_research_args =
  dr_query :: string
  dr_timeout_minutes :: "int option"

datatype tool_call =
    generate_text generate_text_args
  | generate_image generate_image_args
  | deep_research deep_research_args
  | other_tool string

record CallToolResult =
  content_text :: string
  isError :: bool

definition error_result :: "string \<Rightarrow> CallToolResult" where
  "error_result msg = \<lparr>content_text = msg, isError = True\<rparr>"

definition ok_result :: "string \<Rightarrow> CallToolResult" where
  "ok_result msg = \<lparr>content_text = msg, isError = False\<rparr>"

definition blank :: "string \<Rightarrow> bool" where
  "blank s = (s = [] \<or> length (trim s) = 0)"

definition caught_message :: "js_error \<Rightarrow> string \<Rightarrow> string" where
  "caught_message error fallback = (if message error \<noteq> [] then message error else fallback)"

text \<open>The options object each handler passes to its provider.\<close>

definition text_options_of :: "generate_text_args \<Rightarrow> TextGenerateOptions" where
  "text_options_of args =
     \<lparr>opt_prompt = gt_prompt args,
      opt_systemPrompt = gt_system_prompt args,
      opt_model = (case gt_model args of Some (Supported m) \<Rightarrow> Some m | _ \<Rightarrow> None),
      opt_thinkingLevel = gt_thinking_level args,
      opt_maxTokens = gt_max_tokens args,
      opt_temperature = gt_temperature args,
      opt_files = gt_files args\<rparr>"

definition image_options_of :: "generate_image_args \<Rightarrow> ImageGenerateOptions" where
  "image_options_of args =
     \<lparr>image_prompt = gi_prompt args,
      outputPath = gi_output_path args,
      image_model = (case gi_model args of Some (Supported m) \<Rightarrow> Some m | _ \<Rightarrow> None),
      referenceImages = gi_reference_images args,
      aspectRatio = gi_aspect_ratio args\<rparr>"

definition research_options_of :: "deep_research_args \<Rightarrow> DeepResearchOptions" where
  "research_options_of args =
     (let timeoutMinutes = (case dr_timeout_minutes args of
                              None \<Rightarrow> 30
                            | Some m \<Rightarrow> if m = 0 then 30 else m);
          timeout = timeoutMinutes * 60 * 1000
      in \<lparr>research_query = dr_query args, research_timeoutMs = Some timeout,
          research_pollIntervalMs = None\<rparr>)"

definition handle_generate_text :: "env \<Rightarrow> generate_text_args \<Rightarrow> CallToolResult" where
  "handle_generate_text e args =
     (if blank (gt_prompt args) then error_result ''Error: Prompt cannot be empty''
      else case gt_model args of
             Some (Unsupported m) \<Rightarrow>
               error_result (''Error: Unknown text model '' @ dquote @ m @ dquote
                             @ ''. Supported models: '' @ join '', '' SUPPORTED_TEXT_MODELS)
           | _ \<Rightarrow>
               (let run = GeminiTextProvider_generate e (text_options_of args)
                in case text_outcome run of
                     Inr result \<Rightarrow> ok_result (or_default (result_text result) [])
                   | Inl error \<Rightarrow>
                       error_result (''Error: ''
                         @ caught_message error ''Unknown error during generation'')))"

definition handle_generate_image :: "env \<Rightarrow> generate_image_args \<Rightarrow> CallToolResult" where
  "handle_generate_image e args =
     (if blank (gi_prompt args) then error_result ''Error: Prompt cannot be empty''
      else if blank (gi_output_path args) then error_result ''Error: output_path is required''
      else case gi_model args of
             Some (Unsupported m) \<Rightarrow>
               error_result (''Error: Unknown image model '' @ dquote @ m @ dquote
                             @ ''. Supported models: '' @ join '', '' SUPPORTED_IMAGE_MODELS)
           | _ \<Rightarrow>
               (let run = GeminiImageProvider_generate e (image_options_of args)
                in case image_outcome run of
                     Inr result \<Rightarrow>
                       ok_result (''Image saved to: '' @ or_default (imagePath result) [])
                   | Inl error \<Rightarrow>
                       error_result (''Error: ''
                         @ caught_message error ''Unknown error during image generation'')))"

definition handle_deep_research :: "env \<Rightarrow> deep_research_args \<Rightarrow> CallToolResult option" where
  "handle_deep_research e args =
     (if blank (dr_query args) then Some (error_result ''Error: Query cannot be empty'')
      else case research e (research_options_of args) of
             None \<Rightarrow> None
           | Some (Inr result) \<Rightarrow> Some (ok_result (research_text result))
           | Some (Inl error) \<Rightarrow>
               Some (error_result (''Error: ''
                       @ caught_message error ''Unknown error during deep research'')))"

text \<open>The handler; \<open>None\<close> if the call never returns.\<close>

definition CallToolRequest_handler :: "env \<Rightarrow> tool_call \<Rightarrow> CallToolResult option" where
  "CallToolRequest_handler e call =
     (case call of
        generate_text args \<Rightarrow> Some (handle_generate_text e args)
      | generate_image args \<Rightarrow> Some (handle_generate_image e args)
      | deep_research args \<Rightarrow> handle_deep_research e args
      | other_tool n \<Rightarrow>
          Some (error_result (''Error: Unknown tool '' @ dquote @ n @ dquote)))"

text \<open>The closed taxonomy of error categories.\<close>

definition ERROR_CATEGORIES :: "string list" where
  "ERROR_CATEGORIES =
     [''AUTH_ERROR'', ''RATE_LIMIT'', ''SAFETY_BLOCK'', ''CONTENT_BLOCKED'', ''TIMEOUT'',
      ''VALIDATION_ERROR'', ''API_ERROR'', ''RESEARCH_FAILED'', ''GENERATION_ERROR'']"

definition begins_with_category :: "string \<Rightarrow> bool" where
  "begins_with_category msg = list_ex (\<lambda>token. prefix (token @ '':'') msg) ERROR_CATEGORIES"


section \<open>Notions used in the statements\<close>

text \<open>
  The delays \<^verbatim>\<open>withRetry\<close> would sleep before \<open>n\<close> consecutive retries, starting from
  \<open>delay\<close>: each is followed by \<^verbatim>\<open>Math.min(delay * backoffMultiplier, maxDelayMs)\<close>.
\<close>

fun backoff_schedule :: "RequiredRetryOptions \<Rightarrow> nat \<Rightarrow> real \<Rightarrow> real list" where
  "backoff_schedule opts 0 delay = []"
| "backoff_schedule opts (Suc n) delay =
     delay # backoff_schedule opts n (min (delay * r_backoffMultiplier opts) (r_maxDelayMs opts))"




text \<open>An operation that throws, on every invocation, an error matching a retryable pattern.\<close>

definition always_retryable :: "(nat \<Rightarrow> js_error + 'a) \<Rightarrow> string list \<Rightarrow> bool" where
  "always_retryable fn patterns =
     (\<forall>k. case fn k of Inl e \<Rightarrow> isRetryableError e patterns | Inr v \<Rightarrow> False)"

text \<open>
  Round \<open>j\<close> of the poll loop leaves the task running: the budget is not exceeded and
  the GET answers with a status that is neither \<^verbatim>\<open>completed\<close> nor \<^verbatim>\<open>failed\<close>.
\<close>

definition still_running :: "env \<Rightarrow> string \<Rightarrow> int \<Rightarrow> int \<Rightarrow> nat \<Rightarrow> bool" where
  "still_running e interaction timeout startTime j =
     (Date_now e (Suc j) - startTime \<le> timeout \<and>
      (case fetch_poll e interaction j of
         Inr (PollOk (Inr d)) \<Rightarrow>
           interaction_status d \<noteq> ''completed'' \<and> interaction_status d \<noteq> ''failed''
       | _ \<Rightarrow> False))"

section \<open>Example worlds\<close>

text \<open>A world with no files, a vendor that never answers and a network that is down.\<close>

definition quiet_env :: env where
  "quiet_env =
     \<lparr>existsSync = (\<lambda>p. False),
      readFileSync = (\<lambda>p. Inl (new_Error ''ENOENT: no such file or directory'')),
      mkdirSync = (\<lambda>p. None),
      writeFileSync = (\<lambda>p d. None),
      generateContent = (\<lambda>req k. None),
      Date_now = (\<lambda>k. 0),
      fetch_start = (\<lambda>q. Inl (new_Error ''fetch failed'')),
      fetch_poll = (\<lambda>i k. Inl (new_Error ''fetch failed''))\<rparr>"

definition text_options :: "string \<Rightarrow> TextGenerateOptions" where
  "text_options p =
     \<lparr>opt_prompt = p, opt_systemPrompt = None, opt_model = None, opt_thinkingLevel = None,
      opt_maxTokens = None, opt_temperature = None, opt_files = None\<rparr>"

definition pro_medium :: TextGenerateOptions where
  "pro_medium = (text_options ''hello'')\<lparr>opt_model := Some Gemini3Pro, opt_thinkingLevel := Some Medium\<rparr>"

text \<open>An operation that always fails with a rate-limit status.\<close>

definition always_429 :: "nat \<Rightarrow> js_error + unit" where
  "always_429 k = Inl \<lparr>name = ''ApiError'', message = ''got status: 429 Too Many Requests''\<rparr>"

definition always_400 :: "nat \<Rightarrow> js_error + unit" where
  "always_400 k = Inl \<lparr>name = ''ApiError'', message = ''got status: 400 Bad Request''\<rparr>"

definition slow_start :: RetryOptions where
  "slow_start = no_options\<lparr>maxRetries := Some 2, initialDelayMs := Some 50000\<rparr>"

definition two_retries :: RetryOptions where
  "two_retries = no_options\<lparr>maxRetries := Some 2\<rparr>"

definition no_attempts :: RetryOptions where
  "no_attempts = no_options\<lparr>maxRetries := Some (- 1)\<rparr>"

text \<open>An image request with four reference images for the model whose cap is three.\<close>

definition image_options :: "string \<Rightarrow> string \<Rightarrow> ImageGenerateOptions" where
  "image_options p out =
     \<lparr>image_prompt = p, outputPath = out, image_model = None, referenceImages = None,
      aspectRatio = None\<rparr>"

definition four_references :: ImageGenerateOptions where
  "four_references =
     (image_options ''a cat'' ''/tmp/out/cat.png'')
       \<lparr>image_model := Some NanoBanana,
        referenceImages := Some [''AAAA'', ''BBBB'', ''CCCC'', ''DDDD'']\<rparr>"

text \<open>A world in which every path exists and reads as three bytes.\<close>

definition files_env :: env where
  "files_env = quiet_env\<lparr>existsSync := (\<lambda>p. True), readFileSync := (\<lambda>p. Inr ''QUJD'')\<rparr>"

definition gif_request :: TextGenerateOptions where
  "gif_request = (text_options ''describe this'')\<lparr>opt_files := Some [''anim.gif'']\<rparr>"


text \<open>
  The calls whose failures the providers raise with a category: a \<^verbatim>\<open>generate_text\<close> call
  that passes the handler's checks and either fails the thinking-level check or has all
  its files resolved; a \<^verbatim>\<open>generate_image\<close> call that passes the handler's checks, the
  aspect-ratio check and the reference-image count; a \<^verbatim>\<open>deep_research\<close> call with a
  query, in a world where no \<^verbatim>\<open>fetch\<close> and no \<^verbatim>\<open>response.json()\<close> rejects.
\<close>

definition files_resolve :: "env \<Rightarrow> string list \<Rightarrow> bool" where
  "files_resolve e paths = (case add_files e paths [] [] of (Inr c, r) \<Rightarrow> True | (Inl err, r) \<Rightarrow> False)"

definition image_preflight_ok :: "ImageGenerateOptions \<Rightarrow> bool" where
  "image_preflight_ok options =
     ((truthy (aspectRatio options) \<longrightarrow>
         or_default (aspectRatio options) [] \<in> set VALID_ASPECT_RATIOS)
      \<and> length (or_default (referenceImages options) [])
           \<le> MAX_REFERENCE_IMAGES (or_default (image_model options) NanoBanana))"

definition transport_answers :: "env \<Rightarrow> bool" where
  "transport_answers e =
     ((\<forall>q. case fetch_start e q of
              Inl err \<Rightarrow> False
            | Inr (StartOk (Inl err)) \<Rightarrow> False
            | _ \<Rightarrow> True)
      \<and> (\<forall>i k. case fetch_poll e i k of
                  Inl err \<Rightarrow> False
                | Inr (PollOk (Inl err)) \<Rightarrow> False
                | _ \<Rightarrow> True))"

definition known_model :: "'m model_arg option \<Rightarrow> bool" where
  "known_model m = (case m of Some (Unsupported n) \<Rightarrow> False | _ \<Rightarrow> True)"

definition categorised_failure :: "env \<Rightarrow> tool_call \<Rightarrow> bool" where
  "categorised_failure e call =
     (case call of
        generate_text args \<Rightarrow>
          \<not> blank (gt_prompt args) \<and> known_model (gt_model args)
          \<and> (validateThinkingLevel
                (or_default (opt_model (text_options_of args)) DEFAULT_TEXT_MODEL)
                (or_default (opt_thinkingLevel (text_options_of args)) High) \<noteq> None
              \<or> files_resolve e (or_default (gt_files args) []))
      | generate_image args \<Rightarrow>
          \<not> blank (gi_prompt args) \<and> \<not> blank (gi_output_path args)
          \<and> known_model (gi_model args) \<and> image_preflight_ok (image_options_of args)
      | deep_research args \<Rightarrow> \<not> blank (dr_query args) \<and> transport_answers e
      | other_tool n \<Rightarrow> False)"

text \<open>The texts of the output fragments that are present and not empty, in order.\<close>

definition fragments :: "InteractionResponse \<Rightarrow> string list" where
  "fragments d = (case outputs d of None \<Rightarrow> [] | Some outs \<Rightarrow> [t. Some t \<leftarrow> outs, t \<noteq> []])"

text \<open>Tool calls and worlds for the examples.\<close>

definition text_call :: "string \<Rightarrow> generate_text_args" where
  "text_call p =
     \<lparr>gt_prompt = p, gt_model = None, gt_system_prompt = None, gt_thinking_level = None,
      gt_max_tokens = None, gt_temperature = None, gt_files = None\<rparr>"

definition pro_medium_call :: tool_call where
  "pro_medium_call =
     generate_text ((text_call ''hello'')
       \<lparr>gt_model := Some (Supported Gemini3Pro), gt_thinking_level := Some Medium\<rparr>)"

definition empty_prompt_call :: tool_call where
  "empty_prompt_call = generate_text (text_call ''   '')"

definition interaction :: "string \<Rightarrow> string option list option \<Rightarrow> InteractionResponse" where
  "interaction st outs =
     \<lparr>interaction_id = Some ''task-1'', interaction_status = st, outputs = outs,
      interaction_error = None\<rparr>"

text \<open>
  A research task that is in progress at the first two polls and completed at the third,
  with two fragments; every round takes ten seconds.
\<close>

definition three_polls_env :: env where
  "three_polls_env =
     quiet_env
       \<lparr>Date_now := (\<lambda>k. 10000 * int k),
        fetch_start := (\<lambda>q. Inr (StartOk (Inr (interaction ''in_progress'' None)))),
        fetch_poll := (\<lambda>i k. if k < 2 then Inr (PollOk (Inr (interaction ''in_progress'' None)))
                              else Inr (PollOk (Inr (interaction ''completed''
                                     (Some [Some ''Findings.'', Some ''Sources.''])))))\<rparr>"

text \<open>
  A research task completed at the first poll: with five output entries of which three
  carry a non-empty text, and with no non-empty text at all.
\<close>

definition five_outputs_env :: env where
  "five_outputs_env =
     quiet_env
       \<lparr>Date_now := (\<lambda>k. 10000 * int k),
        fetch_start := (\<lambda>q. Inr (StartOk (Inr (interaction ''in_progress'' None)))),
        fetch_poll := (\<lambda>i k. Inr (PollOk (Inr (interaction ''completed''
                         (Some [Some ''A'', None, Some [], Some ''B'', Some ''C''])))))\<rparr>"

definition no_output_env :: env where
  "no_output_env =
     quiet_env
       \<lparr>Date_now := (\<lambda>k. 10000 * int k),
        fetch_start := (\<lambda>q. Inr (StartOk (Inr (interaction ''in_progress'' None)))),
        fetch_poll := (\<lambda>i k. Inr (PollOk (Inr (interaction ''completed''
                         (Some [None, Some []])))))\<rparr>"


definition research_options :: "string \<Rightarrow> int \<Rightarrow> DeepResearchOptions" where
  "research_options q t =
     \<lparr>research_query = q, research_timeoutMs = Some t, research_pollIntervalMs = None\<rparr>"

definition gif_error :: js_error where
  "gif_error =
     new_Error (''Unsupported file type '' @ dquote @ ''.gif'' @ dquote @ ''. Supported types: ''
                @ join '', '' (map fst SUPPORTED_MIME_TYPES))"

definition gif_call :: tool_call where
  "gif_call = generate_text ((text_call ''describe this'')\<lparr>gt_files := Some [''anim.gif'']\<rparr>)"

definition four_references_call :: tool_call where
  "four_references_call =
     generate_image
       \<lparr>gi_prompt = ''a cat'', gi_output_path = ''/tmp/out/cat.png'',
        gi_model = Some (Supported NanoBanana),
        gi_reference_images = Some [''AAAA'', ''BBBB'', ''CCCC'', ''DDDD''],
        gi_aspect_ratio = None\<rparr>"

text \<open>A world whose vendor answers every call, after 1.2 seconds, with a text part and an image.\<close>

definition painted :: response where
  "painted =
     \<lparr>response_text = None,
      candidates =
        [[\<lparr>part_text = Some ''Here you go'', thought = False, inlineData = None\<rparr>,
          \<lparr>part_text = None, thought = False,
           inlineData = Some \<lparr>inline_payload = ''iVBORw0KGgo='',
                               inline_mimeType = Some ''image/png''\<rparr>\<rparr>]],
      usageMetadata = None\<rparr>"

definition painter_env :: env where
  "painter_env = quiet_env\<lparr>generateContent := (\<lambda>req k. Some (1200, Inr painted))\<rparr>"


section \<open>Strings\<close>

lemma js_includes_append: "js_includes (a @ p @ b) p"
proof (induction a)
  case Nil
  show ?case
  proof (cases "p @ b")
    case Nil
    then show ?thesis by simp
  next
    case (Cons c s)
    have "prefix p (p @ b)" by simp
    then show ?thesis unfolding Cons append_Nil by simp
  qed
next
  case (Cons c a)
  then show ?case by simp
qed

lemma js_includes_iff: "js_includes s p \<longleftrightarrow> (\<exists>a b. s = a @ p @ b)"
proof (induction s)
  case Nil
  then show ?case by auto
next
  case (Cons c s)
  show ?case
  proof
    assume "js_includes (c # s) p"
    then consider "prefix p (c # s)" | "js_includes s p" by auto
    then show "\<exists>a b. c # s = a @ p @ b"
    proof cases
      case 1
      then obtain b where "c # s = p @ b" by (auto simp: prefix_def)
      then have "c # s = [] @ p @ b" by simp
      then show ?thesis by blast
    next
      case 2
      with Cons obtain a b where "s = a @ p @ b" by blast
      then have "c # s = (c # a) @ p @ b" by simp
      then show ?thesis by blast
    qed
  next
    assume "\<exists>a b. c # s = a @ p @ b"
    then obtain a b where "c # s = a @ p @ b" by blast
    then show "js_includes (c # s) p" using js_includes_append[of a p b] by simp
  qed
qed







lemma join_concat: "join sep (x # xs) = x @ concat (map ((@) sep) xs)"
  by (induction xs arbitrary: x) simp_all

section \<open>validateThinkingLevel\<close>

lemma validateThinkingLevel_None_iff:
  "validateThinkingLevel m l = None \<longleftrightarrow> l \<in> set (MODEL_THINKING_LEVELS m)"
  by (simp add: validateThinkingLevel_def Let_def)

lemma generate_rejects_level:
  assumes "validateThinkingLevel (or_default (opt_model options) DEFAULT_TEXT_MODEL)
             (or_default (opt_thinkingLevel options) High) = Some msg"
  shows "GeminiTextProvider_generate e options =
           \<lparr>text_outcome = Inl (new_Error (''VALIDATION_ERROR: '' @ msg)),
            text_vendor_calls = 0, files_read = []\<rparr>"
  using assms by (simp add: GeminiTextProvider_generate_def Let_def)

text \<open>
  C1. \<^verbatim>\<open>validateThinkingLevel\<close> returns no error exactly for the levels of the model's
  capability set, which is low and high for gemini-3-pro and all four levels for
  gemini-3-flash; medium is rejected for gemini-3-pro and accepted for gemini-3-flash.
  Whenever the check fails for the model and level of a request (defaults applied),
  \<^verbatim>\<open>GeminiTextProvider.generate\<close> throws an error whose message starts with
  \<^verbatim>\<open>VALIDATION_ERROR: \<close>, having made no vendor call and read no file.
\<close>

theorem C1_thinking_level_validation:
  "(validateThinkingLevel m l = None \<longleftrightarrow> l \<in> set (MODEL_THINKING_LEVELS m))
   \<and> set (MODEL_THINKING_LEVELS Gemini3Pro) = {Low, High}
   \<and> set (MODEL_THINKING_LEVELS Gemini3Flash) = {Minimal, Low, Medium, High}
   \<and> validateThinkingLevel Gemini3Pro Medium \<noteq> None
   \<and> validateThinkingLevel Gemini3Flash Medium = None
   \<and> (validateThinkingLevel (or_default (opt_model options) DEFAULT_TEXT_MODEL)
         (or_default (opt_thinkingLevel options) High) \<noteq> None \<longrightarrow>
       (\<exists>err. text_outcome (GeminiTextProvider_generate e options) = Inl err
              \<and> prefix ''VALIDATION_ERROR: '' (message err))
       \<and> text_vendor_calls (GeminiTextProvider_generate e options) = 0
       \<and> files_read (GeminiTextProvider_generate e options) = [])"
proof -
  have iff: "validateThinkingLevel m l = None \<longleftrightarrow> l \<in> set (MODEL_THINKING_LEVELS m)"
    by (rule validateThinkingLevel_None_iff)
  have pro: "validateThinkingLevel Gemini3Pro Medium \<noteq> None"
    by (simp add: validateThinkingLevel_None_iff)
  have flash: "validateThinkingLevel Gemini3Flash Medium = None"
    by (simp add: validateThinkingLevel_None_iff)
  have gen: "(\<exists>err. text_outcome (GeminiTextProvider_generate e options) = Inl err
              \<and> prefix ''VALIDATION_ERROR: '' (message err))
       \<and> text_vendor_calls (GeminiTextProvider_generate e options) = 0
       \<and> files_read (GeminiTextProvider_generate e options) = []"
    if "validateThinkingLevel (or_default (opt_model options) DEFAULT_TEXT_MODEL)
         (or_default (opt_thinkingLevel options) High) \<noteq> None"
  proof -
    from that obtain msg where
      "validateThinkingLevel (or_default (opt_model options) DEFAULT_TEXT_MODEL)
         (or_default (opt_thinkingLevel options) High) = Some msg"
      by blast
    from generate_rejects_level[OF this, of e] show ?thesis
      by (simp add: new_Error_def)
  qed
  show ?thesis using iff pro flash gen by simp
qed

theorem C1_witness_pro_medium:
  "validateThinkingLevel Gemini3Pro Medium \<noteq> None
   \<and> text_outcome (GeminiTextProvider_generate quiet_env pro_medium) =
       Inl (new_Error
         ''VALIDATION_ERROR: gemini-3-pro only supports thinking levels: low, high. Got: medium'')
   \<and> text_vendor_calls (GeminiTextProvider_generate quiet_env pro_medium) = 0"
proof -
  have v: "validateThinkingLevel (or_default (opt_model pro_medium) DEFAULT_TEXT_MODEL)
         (or_default (opt_thinkingLevel pro_medium) High) \<noteq> None"
    by (simp add: pro_medium_def text_options_def or_default_def validateThinkingLevel_def)
  have out: "text_outcome (GeminiTextProvider_generate quiet_env pro_medium) =
       Inl (new_Error
         ''VALIDATION_ERROR: gemini-3-pro only supports thinking levels: low, high. Got: medium'')"
    by (simp add: GeminiTextProvider_generate_def pro_medium_def text_options_def or_default_def
        validateThinkingLevel_def DEFAULT_TEXT_MODEL_def)
  from C1_thinking_level_validation[of Gemini3Pro Medium pro_medium quiet_env] v out
  show ?thesis by simp
qed


section \<open>withRetry\<close>

lemma always_retryableD:
  "always_retryable fn patterns \<Longrightarrow> \<exists>e. fn k = Inl e \<and> isRetryableError e patterns"
  unfolding always_retryable_def by (erule allE[of _ k]) (auto split: sum.splits)

lemma retry_loop_all_retryable:
  "always_retryable fn (r_retryableErrors opts) \<Longrightarrow> attempt \<le> r_maxRetries opts + 1 \<Longrightarrow>
     retry_loop fn opts attempt delay lastError calls slept =
       \<lparr>outcome = fn (calls + nat (r_maxRetries opts + 1 - attempt)),
        invocations = Suc (calls + nat (r_maxRetries opts + 1 - attempt)),
        sleeps = slept @ backoff_schedule opts (nat (r_maxRetries opts + 1 - attempt)) delay\<rparr>"
proof (induction fn opts attempt delay lastError calls slept rule: retry_loop.induct)
  case (1 fn opts attempt delay lastError calls slept)
  from always_retryableD[OF "1.prems"(1)]
  obtain e where e: "fn calls = Inl e" "isRetryableError e (r_retryableErrors opts)"
    by blast
  show ?case
  proof (cases "attempt \<le> r_maxRetries opts")
    case True
    then have n: "nat (r_maxRetries opts + 1 - attempt) = Suc (nat (r_maxRetries opts + 1 - (attempt + 1)))"
      by simp
    have "retry_loop fn opts attempt delay lastError calls slept =
          retry_loop fn opts (attempt + 1)
                        (min (delay * r_backoffMultiplier opts) (r_maxDelayMs opts))
                        (Some e) (Suc calls) (slept @ [delay])"
      using True e by (subst retry_loop.simps) simp
    also have "\<dots> = \<lparr>outcome = fn (Suc calls + nat (r_maxRetries opts + 1 - (attempt + 1))),
        invocations = Suc (Suc calls + nat (r_maxRetries opts + 1 - (attempt + 1))),
        sleeps = (slept @ [delay]) @ backoff_schedule opts (nat (r_maxRetries opts + 1 - (attempt + 1)))
                   (min (delay * r_backoffMultiplier opts) (r_maxDelayMs opts))\<rparr>"
      using True e "1.prems" by (intro "1.IH") simp_all
    finally show ?thesis unfolding n by simp
  next
    case False
    with "1.prems" have "attempt = r_maxRetries opts + 1" by simp
    then show ?thesis using e by (subst retry_loop.simps) simp
  qed
qed

lemma backoff_schedule_length: "length (backoff_schedule opts n d) = n"
  by (induction n arbitrary: d) simp_all

lemma backoff_schedule_bounded:
  "d \<le> r_maxDelayMs opts \<Longrightarrow> \<forall>x \<in> set (backoff_schedule opts n d). x \<le> r_maxDelayMs opts"
proof (induction n arbitrary: d)
  case 0
  then show ?case by simp
next
  case (Suc n)
  have "min (d * r_backoffMultiplier opts) (r_maxDelayMs opts) \<le> r_maxDelayMs opts" by simp
  from Suc.IH[OF this] Suc.prems show ?case by simp
qed

lemma backoff_step_mono:
  fixes d :: real
  assumes "0 \<le> d" "d \<le> mx" "1 \<le> m"
  shows "d \<le> min (d * m) mx" "0 \<le> min (d * m) mx" "min (d * m) mx \<le> mx"
proof -
  have "d * 1 \<le> d * m" using assms by (intro mult_left_mono) simp_all
  then show "d \<le> min (d * m) mx" using assms by simp
  then show "0 \<le> min (d * m) mx" using assms by linarith
  show "min (d * m) mx \<le> mx" by simp
qed

lemma backoff_schedule_lower:
  "0 \<le> d \<Longrightarrow> d \<le> r_maxDelayMs opts \<Longrightarrow> 1 \<le> r_backoffMultiplier opts \<Longrightarrow>
     \<forall>x \<in> set (backoff_schedule opts n d). d \<le> x"
proof (induction n arbitrary: d)
  case 0
  then show ?case by simp
next
  case (Suc n)
  let ?d' = "min (d * r_backoffMultiplier opts) (r_maxDelayMs opts)"
  note step = backoff_step_mono[OF Suc.prems]
  have "\<forall>x \<in> set (backoff_schedule opts n ?d'). ?d' \<le> x"
    using step Suc.prems by (intro Suc.IH) simp_all
  with step(1) show ?case by fastforce
qed

lemma backoff_schedule_sorted:
  "0 \<le> d \<Longrightarrow> d \<le> r_maxDelayMs opts \<Longrightarrow> 1 \<le> r_backoffMultiplier opts \<Longrightarrow>
     sorted (backoff_schedule opts n d)"
proof (induction n arbitrary: d)
  case 0
  then show ?case by simp
next
  case (Suc n)
  note step = backoff_step_mono[OF Suc.prems]
  show ?case
    using Suc.IH[OF step(2) step(3) Suc.prems(3)] backoff_schedule_lower[OF Suc.prems, of "Suc n"]
    by simp
qed

lemma backoff_schedule_step:
  "Suc i < n \<Longrightarrow>
     backoff_schedule opts n d ! Suc i =
       min (backoff_schedule opts n d ! i * r_backoffMultiplier opts) (r_maxDelayMs opts)"
proof (induction n arbitrary: d i)
  case 0
  then show ?case by simp
next
  case (Suc n)
  show ?case
  proof (cases i)
    case 0
    with Suc.prems obtain m where "n = Suc m" by (cases n) simp_all
    with 0 show ?thesis by simp
  next
    case (Suc j)
    with Suc.prems have "Suc j < n" by simp
    from Suc.IH[OF this] Suc show ?thesis by simp
  qed
qed

lemma withRetry_all_retryable:
  assumes "always_retryable fn (r_retryableErrors (merge_options options))"
    and "0 \<le> r_maxRetries (merge_options options)"
  shows "withRetry fn options =
           \<lparr>outcome = fn (nat (r_maxRetries (merge_options options))),
            invocations = Suc (nat (r_maxRetries (merge_options options))),
            sleeps = backoff_schedule (merge_options options)
                       (nat (r_maxRetries (merge_options options)))
                       (r_initialDelayMs (merge_options options))\<rparr>"
proof -
  have "(1::int) \<le> r_maxRetries (merge_options options) + 1" using assms(2) by simp
  from retry_loop_all_retryable[OF assms(1) this] show ?thesis
    by (simp add: withRetry_def Let_def)
qed

lemma isRetryable_429:
  "isRetryableError \<lparr>name = ''ApiError'', message = ''got status: 429 Too Many Requests''\<rparr>
     [''RATE_LIMIT'', ''ECONNRESET'', ''ETIMEDOUT'', ''ENOTFOUND'', ''429'', ''503'', ''502'']"
  by code_simp

lemma not_isRetryable_400:
  "\<not> isRetryableError \<lparr>name = ''ApiError'', message = ''got status: 400 Bad Request''\<rparr>
     [''RATE_LIMIT'', ''ECONNRESET'', ''ETIMEDOUT'', ''ENOTFOUND'', ''429'', ''503'', ''502'']"
  by code_simp

text \<open>
  C2 (as amended). For every \<open>maxRetries \<ge> 0\<close> and every operation that throws a retryable
  error on every invocation, \<^verbatim>\<open>withRetry\<close> invokes the operation exactly
  \<open>maxRetries + 1\<close> times and then throws the error of the last invocation. It sleeps
  \<open>maxRetries\<close> times: first \<open>initialDelayMs\<close>, and after each sleep the delay becomes
  \<open>min (delay * backoffMultiplier) maxDelayMs\<close>. When
  \<open>0 \<le> initialDelayMs \<le> maxDelayMs\<close> and \<open>1 \<le> backoffMultiplier\<close> (as with the defaults
  1000, 30000 and 2) the delays are non-decreasing and each is at most \<open>maxDelayMs\<close>.
\<close>

theorem C2_retry_exhaustion:
  assumes "always_retryable fn (r_retryableErrors (merge_options options))"
    and "0 \<le> r_maxRetries (merge_options options)"
  shows "invocations (withRetry fn options) = nat (r_maxRetries (merge_options options) + 1)
     \<and> outcome (withRetry fn options) = fn (nat (r_maxRetries (merge_options options)))
     \<and> (\<exists>err. outcome (withRetry fn options) = Inl err)
     \<and> length (sleeps (withRetry fn options)) = nat (r_maxRetries (merge_options options))
     \<and> (sleeps (withRetry fn options) \<noteq> [] \<longrightarrow>
          hd (sleeps (withRetry fn options)) = r_initialDelayMs (merge_options options))
     \<and> (\<forall>i. Suc i < length (sleeps (withRetry fn options)) \<longrightarrow>
          sleeps (withRetry fn options) ! Suc i =
            min (sleeps (withRetry fn options) ! i * r_backoffMultiplier (merge_options options))
                (r_maxDelayMs (merge_options options)))
     \<and> (0 \<le> r_initialDelayMs (merge_options options)
          \<and> r_initialDelayMs (merge_options options) \<le> r_maxDelayMs (merge_options options)
          \<and> 1 \<le> r_backoffMultiplier (merge_options options) \<longrightarrow>
          sorted (sleeps (withRetry fn options))
          \<and> (\<forall>d \<in> set (sleeps (withRetry fn options)). d \<le> r_maxDelayMs (merge_options options)))"
proof -
  let ?opts = "merge_options options"
  let ?n = "nat (r_maxRetries ?opts)"
  let ?sched = "backoff_schedule ?opts ?n (r_initialDelayMs ?opts)"
  note run = withRetry_all_retryable[OF assms]
  have calls: "invocations (withRetry fn options) = nat (r_maxRetries ?opts + 1)"
    using assms(2) by (simp add: run nat_add_distrib)
  have out: "outcome (withRetry fn options) = fn ?n" by (simp add: run)
  have err: "\<exists>err. outcome (withRetry fn options) = Inl err"
    using always_retryableD[OF assms(1), of ?n] out by auto
  have sl: "sleeps (withRetry fn options) = ?sched" by (simp add: run)
  have len: "length (sleeps (withRetry fn options)) = ?n"
    by (simp add: sl backoff_schedule_length)
  have first: "sleeps (withRetry fn options) \<noteq> [] \<longrightarrow>
          hd (sleeps (withRetry fn options)) = r_initialDelayMs ?opts"
    unfolding sl by (cases ?n) simp_all
  have step: "\<forall>i. Suc i < length (sleeps (withRetry fn options)) \<longrightarrow>
          sleeps (withRetry fn options) ! Suc i =
            min (sleeps (withRetry fn options) ! i * r_backoffMultiplier ?opts) (r_maxDelayMs ?opts)"
    unfolding sl by (simp add: backoff_schedule_length backoff_schedule_step)
  have mono: "0 \<le> r_initialDelayMs ?opts \<and> r_initialDelayMs ?opts \<le> r_maxDelayMs ?opts
          \<and> 1 \<le> r_backoffMultiplier ?opts \<longrightarrow>
          sorted (sleeps (withRetry fn options))
          \<and> (\<forall>d \<in> set (sleeps (withRetry fn options)). d \<le> r_maxDelayMs ?opts)"
    unfolding sl using backoff_schedule_sorted[of "r_initialDelayMs ?opts" ?opts ?n]
      backoff_schedule_bounded[of "r_initialDelayMs ?opts" ?opts ?n]
    by blast
  from calls out err len first step mono show ?thesis by blast
qed

theorem C2_witness_two_retries:
  "invocations (withRetry always_429 two_retries) = 3
   \<and> outcome (withRetry always_429 two_retries) = always_429 2
   \<and> sleeps (withRetry always_429 two_retries) = [1000, 2000]
   \<and> sorted (sleeps (withRetry always_429 two_retries))"
proof -
  have opts: "merge_options two_retries =
      \<lparr>r_maxRetries = 2, r_initialDelayMs = 1000, r_maxDelayMs = 30000, r_backoffMultiplier = 2,
       r_retryableErrors = [''RATE_LIMIT'', ''ECONNRESET'', ''ETIMEDOUT'', ''ENOTFOUND'',
                            ''429'', ''503'', ''502'']\<rparr>"
    by (simp add: merge_options_def two_retries_def no_options_def or_default_def DEFAULT_OPTIONS_def)
  have a: "always_retryable always_429 (r_retryableErrors (merge_options two_retries))"
    unfolding opts always_retryable_def always_429_def using isRetryable_429 by simp
  have b: "0 \<le> r_maxRetries (merge_options two_retries)" by (simp add: opts)
  have n: "nat (r_maxRetries (merge_options two_retries)) = Suc (Suc 0)" by (simp add: opts)
  have sl: "sleeps (withRetry always_429 two_retries) = [1000, 2000]"
    using withRetry_all_retryable[OF a b] unfolding n by (simp add: opts)
  from C2_retry_exhaustion[OF a b] sl show ?thesis by (simp add: opts)
qed

theorem C2_counterexample_slow_start:
  "always_retryable always_429 (r_retryableErrors (merge_options slow_start))
   \<and> 0 \<le> r_maxRetries (merge_options slow_start)
   \<and> r_maxDelayMs (merge_options slow_start) = 30000
   \<and> sleeps (withRetry always_429 slow_start) = [50000, 30000]
   \<and> \<not> sorted (sleeps (withRetry always_429 slow_start))
   \<and> \<not> hd (sleeps (withRetry always_429 slow_start)) \<le> r_maxDelayMs (merge_options slow_start)"
proof -
  have opts: "merge_options slow_start =
      \<lparr>r_maxRetries = 2, r_initialDelayMs = 50000, r_maxDelayMs = 30000, r_backoffMultiplier = 2,
       r_retryableErrors = [''RATE_LIMIT'', ''ECONNRESET'', ''ETIMEDOUT'', ''ENOTFOUND'',
                            ''429'', ''503'', ''502'']\<rparr>"
    by (simp add: merge_options_def slow_start_def no_options_def or_default_def DEFAULT_OPTIONS_def)
  have a: "always_retryable always_429 (r_retryableErrors (merge_options slow_start))"
    unfolding opts always_retryable_def always_429_def using isRetryable_429 by simp
  have b: "0 \<le> r_maxRetries (merge_options slow_start)" by (simp add: opts)
  have n: "nat (r_maxRetries (merge_options slow_start)) = Suc (Suc 0)" by (simp add: opts)
  have sl: "sleeps (withRetry always_429 slow_start) = [50000, 30000]"
    using withRetry_all_retryable[OF a b] unfolding n by (simp add: opts)
  from a b sl show ?thesis by (simp add: opts)
qed

lemma withRetry_once_failure:
  assumes "fn 0 = Inl err"
    and "\<not> isRetryableError err (r_retryableErrors (merge_options options))"
    and "0 \<le> r_maxRetries (merge_options options)"
  shows "withRetry fn options = \<lparr>outcome = Inl err, invocations = 1, sleeps = []\<rparr>"
  using assms unfolding withRetry_def Let_def
  by (subst retry_loop.simps) simp

lemma withRetry_once_success:
  assumes "fn 0 = Inr v" and "0 \<le> r_maxRetries (merge_options options)"
  shows "withRetry fn options = \<lparr>outcome = Inr v, invocations = 1, sleeps = []\<rparr>"
  using assms unfolding withRetry_def Let_def
  by (subst retry_loop.simps) simp

lemma provider_retry_options_merged:
  "merge_options provider_retry_options =
     \<lparr>r_maxRetries = 2, r_initialDelayMs = 1000, r_maxDelayMs = 30000, r_backoffMultiplier = 2,
      r_retryableErrors = [''RATE_LIMIT'', ''429'', ''503'', ''502'', ''ECONNRESET'', ''ETIMEDOUT'']\<rparr>"
  by (simp add: merge_options_def provider_retry_options_def or_default_def DEFAULT_OPTIONS_def)

lemma vendor_run_once_failure:
  assumes "snd (withTimeout (generateContent e req 0) t) = Inl err"
    and "\<not> isRetryableError err [''RATE_LIMIT'', ''429'', ''503'', ''502'', ''ECONNRESET'', ''ETIMEDOUT'']"
  shows "vendor_run e req t = \<lparr>outcome = Inl err, invocations = 1, sleeps = []\<rparr>"
  unfolding vendor_run_def
  by (rule withRetry_once_failure) (simp_all add: assms provider_retry_options_merged)

lemma vendor_run_once_success:
  assumes "snd (withTimeout (generateContent e req 0) t) = Inr v"
  shows "vendor_run e req t = \<lparr>outcome = Inr v, invocations = 1, sleeps = []\<rparr>"
  unfolding vendor_run_def
  by (rule withRetry_once_success) (simp_all add: assms provider_retry_options_merged)

text \<open>
  C6 (as amended). For every \<open>maxRetries \<ge> 0\<close> and every operation whose first invocation
  throws an error matching none of the retryable patterns, \<^verbatim>\<open>withRetry\<close> invokes the
  operation exactly once, sleeps never, and throws that very error.
\<close>

theorem C6_non_retryable_once:
  assumes "fn 0 = Inl err"
    and "\<not> isRetryableError err (r_retryableErrors (merge_options options))"
    and "0 \<le> r_maxRetries (merge_options options)"
  shows "withRetry fn options = \<lparr>outcome = Inl err, invocations = 1, sleeps = []\<rparr>"
  using assms by (rule withRetry_once_failure)

theorem C6_witness_bad_request:
  "withRetry always_400 two_retries =
     \<lparr>outcome = Inl \<lparr>name = ''ApiError'', message = ''got status: 400 Bad Request''\<rparr>,
      invocations = 1, sleeps = []\<rparr>"
proof -
  have opts: "merge_options two_retries =
      \<lparr>r_maxRetries = 2, r_initialDelayMs = 1000, r_maxDelayMs = 30000, r_backoffMultiplier = 2,
       r_retryableErrors = [''RATE_LIMIT'', ''ECONNRESET'', ''ETIMEDOUT'', ''ENOTFOUND'',
                            ''429'', ''503'', ''502'']\<rparr>"
    by (simp add: merge_options_def two_retries_def no_options_def or_default_def DEFAULT_OPTIONS_def)
  have a: "always_400 0 = Inl \<lparr>name = ''ApiError'', message = ''got status: 400 Bad Request''\<rparr>"
    by (simp add: always_400_def)
  have b: "\<not> isRetryableError \<lparr>name = ''ApiError'', message = ''got status: 400 Bad Request''\<rparr>
             (r_retryableErrors (merge_options two_retries))"
    unfolding opts using not_isRetryable_400 by simp
  have c: "0 \<le> r_maxRetries (merge_options two_retries)" by (simp add: opts)
  from C6_non_retryable_once[of always_400 _ two_retries, OF a b c] show ?thesis .
qed

theorem C6_counterexample_no_attempts:
  "always_400 0 = Inl \<lparr>name = ''ApiError'', message = ''got status: 400 Bad Request''\<rparr>
   \<and> \<not> isRetryableError \<lparr>name = ''ApiError'', message = ''got status: 400 Bad Request''\<rparr>
         (r_retryableErrors (merge_options no_attempts))
   \<and> invocations (withRetry always_400 no_attempts) = 0
   \<and> outcome (withRetry always_400 no_attempts) = Inl (new_Error ''Retry failed with unknown error'')"
proof -
  have opts: "merge_options no_attempts =
      \<lparr>r_maxRetries = - 1, r_initialDelayMs = 1000, r_maxDelayMs = 30000, r_backoffMultiplier = 2,
       r_retryableErrors = [''RATE_LIMIT'', ''ECONNRESET'', ''ETIMEDOUT'', ''ENOTFOUND'',
                            ''429'', ''503'', ''502'']\<rparr>"
    by (simp add: merge_options_def no_attempts_def no_options_def or_default_def DEFAULT_OPTIONS_def)
  have run: "withRetry always_400 no_attempts =
      \<lparr>outcome = Inl (new_Error ''Retry failed with unknown error''), invocations = 0, sleeps = []\<rparr>"
    unfolding withRetry_def Let_def opts by (subst retry_loop.simps) simp
  show ?thesis
    unfolding opts using not_isRetryable_400 by (simp add: run[unfolded opts] always_400_def)
qed

section \<open>withTimeout\<close>







section \<open>Error categories\<close>

lemma begins_with_category_nonempty: "begins_with_category msg \<Longrightarrow> msg \<noteq> []"
  by (auto simp: begins_with_category_def list_ex_iff)

lemma validation_error_category: "begins_with_category (''VALIDATION_ERROR: '' @ msg)"
  by (simp add: begins_with_category_def ERROR_CATEGORIES_def)

lemma text_catch_category: "begins_with_category (message (text_catch err))"
  by (simp add: text_catch_def Let_def begins_with_category_def ERROR_CATEGORIES_def new_Error_def)

lemma image_catch_category: "begins_with_category (message (image_catch err))"
  by (simp add: image_catch_def Let_def begins_with_category_def ERROR_CATEGORIES_def new_Error_def)

lemma text_failure_categorised:
  assumes fail: "text_outcome (GeminiTextProvider_generate e options) = Inl err"
    and pre: "validateThinkingLevel (or_default (opt_model options) DEFAULT_TEXT_MODEL)
                (or_default (opt_thinkingLevel options) High) \<noteq> None
              \<or> files_resolve e (or_default (opt_files options) [])"
  shows "begins_with_category (message err)"
proof (cases "validateThinkingLevel (or_default (opt_model options) DEFAULT_TEXT_MODEL)
                (or_default (opt_thinkingLevel options) High)")
  case (Some msg)
  from generate_rejects_level[OF Some, of e] fail
  have "err = new_Error (''VALIDATION_ERROR: '' @ msg)" by simp
  then show ?thesis using validation_error_category[of msg] by (simp add: new_Error_def)
next
  case None
  with pre have "files_resolve e (or_default (opt_files options) [])" by simp
  then obtain c r where files: "add_files e (or_default (opt_files options) []) [] [] = (Inr c, r)"
    by (auto simp: files_resolve_def split: prod.splits sum.splits)
  from fail None files show ?thesis
    by (auto simp: GeminiTextProvider_generate_def Let_def text_catch_category split: sum.splits)
qed

lemma save_image_failure_categorised:
  "image_outcome (save_image e options m response calls) = Inl err \<Longrightarrow>
     begins_with_category (message err)"
  by (auto simp: save_image_def Let_def image_catch_category split: if_splits option.splits)

lemma image_failure_categorised:
  assumes fail: "image_outcome (GeminiImageProvider_generate e options) = Inl err"
    and pre: "image_preflight_ok options"
  shows "begins_with_category (message err)"
  using fail pre
  by (auto simp: GeminiImageProvider_generate_def image_preflight_ok_def Let_def
      image_catch_category save_image_failure_categorised split: sum.splits if_splits)

lemma transport_answers_start:
  assumes "transport_answers e"
  shows "fetch_start e q \<noteq> Inl err \<and> fetch_start e q \<noteq> Inr (StartOk (Inl err))"
proof -
  from assms have "case fetch_start e q of
              Inl err \<Rightarrow> False
            | Inr (StartOk (Inl err)) \<Rightarrow> False
            | _ \<Rightarrow> True"
    unfolding transport_answers_def by blast
  then show ?thesis by (auto split: sum.splits start_http.splits)
qed

lemma transport_answers_poll:
  assumes "transport_answers e"
  shows "fetch_poll e i k \<noteq> Inl err \<and> fetch_poll e i k \<noteq> Inr (PollOk (Inl err))"
proof -
  from assms have "case fetch_poll e i k of
                  Inl err \<Rightarrow> False
                | Inr (PollOk (Inl err)) \<Rightarrow> False
                | _ \<Rightarrow> True"
    unfolding transport_answers_def by blast
  then show ?thesis by (auto split: sum.splits poll_http.splits)
qed

lemma startResearch_categorised:
  assumes "startResearch e q = Inl err" and "transport_answers e"
  shows "begins_with_category (message err)"
  using assms(1) transport_answers_start[OF assms(2), of q]
  by (auto simp: startResearch_def Let_def begins_with_category_def ERROR_CATEGORIES_def
      new_Error_def split: sum.splits start_http.splits option.splits prod.splits if_splits)

lemma research_timeout_category:
  "begins_with_category (message (research_timeout_error elapsed i))"
  by (simp add: research_timeout_error_def Let_def begins_with_category_def ERROR_CATEGORIES_def
      new_Error_def)

lemma pollForCompletion_categorised:
  assumes run: "pollForCompletion e i t p s k = Some y" and tr: "transport_answers e"
  shows "\<forall>err k'. y = (Inl err, k') \<longrightarrow> begins_with_category (message err)"
proof -
  have "transport_answers e \<longrightarrow>
          (\<forall>err k'. y = (Inl err, k') \<longrightarrow> begins_with_category (message err))"
  proof (rule pollForCompletion.raw_induct
      [OF _ run, where P = "\<lambda>e i t p s k y. transport_answers e \<longrightarrow>
          (\<forall>err k'. y = (Inl err, k') \<longrightarrow> begins_with_category (message err))"], goal_cases)
    case (1 poll e i t p s k y)
    show ?case
    proof (intro impI allI)
      fix err k'
      assume tr: "transport_answers e" and y: "y = (Inl err, k')"
      note no = transport_answers_poll[OF tr, of i k]
      from "1"(2) y no "1"(1) tr show "begins_with_category (message err)"
        by (auto simp: Let_def research_timeout_error_def begins_with_category_def
            ERROR_CATEGORIES_def new_Error_def
            split: sum.splits poll_http.splits if_splits)
    qed
  qed
  with tr show ?thesis by blast
qed

lemma research_categorised:
  assumes "research e options = Some (Inl err)" and "transport_answers e"
  shows "begins_with_category (message err)"
  using assms(1) startResearch_categorised[OF _ assms(2)] pollForCompletion_categorised[OF _ assms(2)]
  by (auto simp: research_def Let_def split: sum.splits option.splits prod.splits)

section \<open>The tool boundary\<close>

lemma error_result_simps [simp]:
  "content_text (error_result m) = m" "isError (error_result m)"
  "content_text (ok_result m) = m" "\<not> isError (ok_result m)"
  by (simp_all add: error_result_def ok_result_def)

lemma handle_generate_text_prefix:
  "isError (handle_generate_text e args) \<Longrightarrow> prefix ''Error: '' (content_text (handle_generate_text e args))"
  by (auto simp: handle_generate_text_def Let_def split: option.splits model_arg.splits sum.splits if_splits)

lemma handle_generate_image_prefix:
  "isError (handle_generate_image e args) \<Longrightarrow> prefix ''Error: '' (content_text (handle_generate_image e args))"
  by (auto simp: handle_generate_image_def Let_def split: option.splits model_arg.splits sum.splits if_splits)

lemma handle_deep_research_prefix:
  "handle_deep_research e args = Some r \<Longrightarrow> isError r \<Longrightarrow> prefix ''Error: '' (content_text r)"
  by (auto simp: handle_deep_research_def Let_def split: option.splits sum.splits if_splits)

lemma handler_error_prefix:
  "CallToolRequest_handler e call = Some r \<Longrightarrow> isError r \<Longrightarrow> prefix ''Error: '' (content_text r)"
  by (cases call)
     (auto simp: CallToolRequest_handler_def handle_generate_text_prefix
        handle_generate_image_prefix handle_deep_research_prefix)

lemma caught_message_category:
  "begins_with_category (message err) \<Longrightarrow> caught_message err fallback = message err"
  by (auto simp: caught_message_def dest: begins_with_category_nonempty)

lemma handle_generate_text_categorised:
  assumes "isError (handle_generate_text e args)"
    and "categorised_failure e (generate_text args)"
  shows "begins_with_category (drop 7 (content_text (handle_generate_text e args)))"
proof -
  from assms(2) have nb: "\<not> blank (gt_prompt args)" and km: "known_model (gt_model args)"
    and pre: "validateThinkingLevel
                (or_default (opt_model (text_options_of args)) DEFAULT_TEXT_MODEL)
                (or_default (opt_thinkingLevel (text_options_of args)) High) \<noteq> None
              \<or> files_resolve e (or_default (opt_files (text_options_of args)) [])"
    by (simp_all add: categorised_failure_def text_options_of_def)
  from nb km have h: "handle_generate_text e args =
      (case text_outcome (GeminiTextProvider_generate e (text_options_of args)) of
         Inr result \<Rightarrow> ok_result (or_default (result_text result) [])
       | Inl error \<Rightarrow> error_result (''Error: '' @ caught_message error ''Unknown error during generation''))"
    by (auto simp: handle_generate_text_def known_model_def Let_def split: option.splits model_arg.splits)
  from assms(1) obtain err where
    out: "text_outcome (GeminiTextProvider_generate e (text_options_of args)) = Inl err"
    unfolding h by (auto split: sum.splits)
  from text_failure_categorised[OF out pre] have "begins_with_category (message err)" .
  then show ?thesis unfolding h out by (simp add: caught_message_category)
qed

lemma handle_generate_image_categorised:
  assumes "isError (handle_generate_image e args)"
    and "categorised_failure e (generate_image args)"
  shows "begins_with_category (drop 7 (content_text (handle_generate_image e args)))"
proof -
  from assms(2) have nb: "\<not> blank (gi_prompt args)" "\<not> blank (gi_output_path args)"
    and km: "known_model (gi_model args)"
    and pre: "image_preflight_ok (image_options_of args)"
    by (simp_all add: categorised_failure_def)
  from nb km have h: "handle_generate_image e args =
      (case image_outcome (GeminiImageProvider_generate e (image_options_of args)) of
         Inr result \<Rightarrow> ok_result (''Image saved to: '' @ or_default (imagePath result) [])
       | Inl error \<Rightarrow> error_result (''Error: '' @ caught_message error ''Unknown error during image generation''))"
    by (auto simp: handle_generate_image_def known_model_def Let_def split: option.splits model_arg.splits)
  from assms(1) obtain err where
    out: "image_outcome (GeminiImageProvider_generate e (image_options_of args)) = Inl err"
    unfolding h by (auto split: sum.splits)
  from image_failure_categorised[OF out pre] have "begins_with_category (message err)" .
  then show ?thesis unfolding h out by (simp add: caught_message_category)
qed

lemma handle_deep_research_categorised:
  assumes "handle_deep_research e args = Some r" and "isError r"
    and "categorised_failure e (deep_research args)"
  shows "begins_with_category (drop 7 (content_text r))"
proof -
  from assms(3) have nb: "\<not> blank (dr_query args)" and tr: "transport_answers e"
    by (simp_all add: categorised_failure_def)
  from assms(1,2) nb obtain err where
    out: "research e (research_options_of args) = Some (Inl err)"
    and r: "r = error_result (''Error: '' @ caught_message err ''Unknown error during deep research'')"
    by (auto simp: handle_deep_research_def split: option.splits sum.splits)
  from research_categorised[OF out tr] have "begins_with_category (message err)" .
  then show ?thesis unfolding r by (simp add: caught_message_category)
qed

lemma handler_categorised:
  assumes "CallToolRequest_handler e call = Some r" and "isError r"
    and "categorised_failure e call"
  shows "begins_with_category (drop 7 (content_text r))"
proof (cases call)
  case (generate_text args)
  with assms show ?thesis
    using handle_generate_text_categorised[of e args] by (simp add: CallToolRequest_handler_def)
next
  case (generate_image args)
  with assms show ?thesis
    using handle_generate_image_categorised[of e args] by (simp add: CallToolRequest_handler_def)
next
  case (deep_research args)
  with assms show ?thesis
    using handle_deep_research_categorised[of e args r] by (simp add: CallToolRequest_handler_def)
next
  case (other_tool n)
  with assms(3) show ?thesis by (simp add: categorised_failure_def)
qed


text \<open>
  C3 (as amended). Every failing call of \<^verbatim>\<open>generate_text\<close>, \<^verbatim>\<open>generate_image\<close> or
  \<^verbatim>\<open>deep_research\<close> returns a message that begins with \<^verbatim>\<open>Error: \<close>. When the failure is
  raised by the thinking-level check, inside a provider's \<^verbatim>\<open>try\<close> block around the vendor
  call, or by the research provider's own checks, what follows \<^verbatim>\<open>Error: \<close> begins with
  one of the category tokens followed by a colon.
\<close>

theorem C3_failure_message:
  assumes "CallToolRequest_handler e call = Some r" and "isError r"
  shows "prefix ''Error: '' (content_text r)
     \<and> (categorised_failure e call \<longrightarrow> begins_with_category (drop 7 (content_text r)))"
  using handler_error_prefix[OF assms] handler_categorised[OF assms] by blast

lemma pro_medium_call_result:
  "CallToolRequest_handler quiet_env pro_medium_call =
     Some (error_result
       ''Error: VALIDATION_ERROR: gemini-3-pro only supports thinking levels: low, high. Got: medium'')"
  by (simp add: CallToolRequest_handler_def pro_medium_call_def text_call_def
      handle_generate_text_def blank_def trim_def is_space_def text_options_of_def
      GeminiTextProvider_generate_def validateThinkingLevel_def or_default_def
      DEFAULT_TEXT_MODEL_def caught_message_def new_Error_def)

lemma empty_prompt_call_result:
  "CallToolRequest_handler quiet_env empty_prompt_call =
     Some (error_result ''Error: Prompt cannot be empty'')"
  by (simp add: CallToolRequest_handler_def empty_prompt_call_def text_call_def
      handle_generate_text_def blank_def trim_def is_space_def)

theorem C3_witness_pro_medium:
  "CallToolRequest_handler quiet_env pro_medium_call =
     Some (error_result
       ''Error: VALIDATION_ERROR: gemini-3-pro only supports thinking levels: low, high. Got: medium'')
   \<and> categorised_failure quiet_env pro_medium_call
   \<and> begins_with_category
       ''VALIDATION_ERROR: gemini-3-pro only supports thinking levels: low, high. Got: medium''"
proof -
  have c: "categorised_failure quiet_env pro_medium_call"
    by (simp add: categorised_failure_def pro_medium_call_def text_call_def blank_def trim_def
        is_space_def known_model_def text_options_of_def validateThinkingLevel_def or_default_def)
  from C3_failure_message[OF pro_medium_call_result] c
  show ?thesis by (simp add: pro_medium_call_result)
qed

theorem C3_counterexample_error_prefix:
  "CallToolRequest_handler quiet_env pro_medium_call =
     Some (error_result
       ''Error: VALIDATION_ERROR: gemini-3-pro only supports thinking levels: low, high. Got: medium'')
   \<and> \<not> begins_with_category
       ''Error: VALIDATION_ERROR: gemini-3-pro only supports thinking levels: low, high. Got: medium''
   \<and> CallToolRequest_handler quiet_env empty_prompt_call =
       Some (error_result ''Error: Prompt cannot be empty'')
   \<and> \<not> begins_with_category ''Error: Prompt cannot be empty''
   \<and> \<not> begins_with_category ''Prompt cannot be empty''"
  by (simp add: pro_medium_call_result empty_prompt_call_result begins_with_category_def
      ERROR_CATEGORIES_def)

section \<open>The attachment resolver\<close>

lemma add_files_reads:
  "set (snd (add_files e paths contents reads)) \<subseteq> set reads \<union> {p \<in> set paths. existsSync e p}"
proof (induction paths arbitrary: contents reads)
  case Nil
  then show ?case by simp
next
  case (Cons p paths)
  show ?case
  proof (cases "existsSync e p")
    case False
    then show ?thesis by simp
  next
    case True
    show ?thesis
    proof (cases "getMimeType p")
      case (Inl err)
      with True show ?thesis by simp
    next
      case (Inr mimeType)
      show ?thesis
      proof (cases "readFileSync e p")
        case (Inl err)
        with True Inr show ?thesis by auto
      next
        case (Inr d)
        from Cons.IH[of "contents @ [inlineData_item mimeType d]" "reads @ [p]"]
        show ?thesis using True \<open>getMimeType p = Inr mimeType\<close> Inr by auto
      qed
    qed
  qed
qed

lemma add_files_missing:
  "p \<in> set paths \<Longrightarrow> \<not> existsSync e p \<Longrightarrow> \<exists>err. fst (add_files e paths contents reads) = Inl err"
proof (induction paths arbitrary: contents reads)
  case Nil
  then show ?case by simp
next
  case (Cons q paths)
  show ?case
  proof (cases "existsSync e q")
    case False
    then show ?thesis by simp
  next
    case True
    with Cons.prems have "p \<in> set paths" by auto
    from Cons.IH[OF this Cons.prems(2)] True show ?thesis
      by (auto split: sum.splits)
  qed
qed

lemma generate_missing_file:
  assumes "p \<in> set (or_default (opt_files options) [])" and "\<not> existsSync e p"
  shows "(\<exists>err. text_outcome (GeminiTextProvider_generate e options) = Inl err)
     \<and> text_vendor_calls (GeminiTextProvider_generate e options) = 0
     \<and> p \<notin> set (files_read (GeminiTextProvider_generate e options))"
proof (cases "validateThinkingLevel (or_default (opt_model options) DEFAULT_TEXT_MODEL)
                (or_default (opt_thinkingLevel options) High)")
  case (Some msg)
  from generate_rejects_level[OF Some, of e] show ?thesis by simp
next
  case None
  obtain res reads where af: "add_files e (or_default (opt_files options) []) [] [] = (res, reads)"
    by (cases "add_files e (or_default (opt_files options) []) [] []")
  from add_files_missing[OF assms, of "[]" "[]"] af obtain err where res: "res = Inl err" by auto
  from add_files_reads[of e "or_default (opt_files options) []" "[]" "[]"] af assms(2)
  have "p \<notin> set reads" by auto
  with None af res show ?thesis
    by (simp add: GeminiTextProvider_generate_def Let_def)
qed

lemma gif_unsupported: "map_of SUPPORTED_MIME_TYPES ''.gif'' = None"
  by code_simp

lemma png_supported: "map_of SUPPORTED_MIME_TYPES ''.png'' = Some ''image/png''"
  by code_simp

text \<open>
  C4, as far as the code goes. A path whose extension is \<^verbatim>\<open>.png\<close> (in any case) resolves to
  \<^verbatim>\<open>image/png\<close>. A path whose extension is absent from the table, as \<^verbatim>\<open>.gif\<close> is, is
  rejected with a message that starts with \<^verbatim>\<open>Unsupported file type\<close>: it carries no
  category token, and this is where the code departs from the claim. A request with a
  nonexistent attachment path fails with no vendor call, and the path is never read.
\<close>

theorem C4_attachment_resolver:
  "(toLowerCase (extname p) = ''.png'' \<longrightarrow> getMimeType p = Inr ''image/png'')
   \<and> map_of SUPPORTED_MIME_TYPES ''.gif'' = None
   \<and> (map_of SUPPORTED_MIME_TYPES (toLowerCase (extname p)) = None \<longrightarrow>
        (\<exists>err. getMimeType p = Inl err
               \<and> prefix ''Unsupported file type'' (message err)
               \<and> \<not> begins_with_category (message err)))
   \<and> (q \<in> set (or_default (opt_files options) []) \<and> \<not> existsSync e q \<longrightarrow>
        (\<exists>err. text_outcome (GeminiTextProvider_generate e options) = Inl err)
        \<and> text_vendor_calls (GeminiTextProvider_generate e options) = 0
        \<and> q \<notin> set (files_read (GeminiTextProvider_generate e options)))"
proof -
  have png: "toLowerCase (extname p) = ''.png'' \<longrightarrow> getMimeType p = Inr ''image/png''"
    by (simp add: getMimeType_def Let_def png_supported)
  have other: "map_of SUPPORTED_MIME_TYPES (toLowerCase (extname p)) = None \<longrightarrow>
        (\<exists>err. getMimeType p = Inl err
               \<and> prefix ''Unsupported file type'' (message err)
               \<and> \<not> begins_with_category (message err))"
    by (simp add: getMimeType_def Let_def new_Error_def begins_with_category_def
        ERROR_CATEGORIES_def)
  have missing: "q \<in> set (or_default (opt_files options) []) \<and> \<not> existsSync e q \<longrightarrow>
        (\<exists>err. text_outcome (GeminiTextProvider_generate e options) = Inl err)
        \<and> text_vendor_calls (GeminiTextProvider_generate e options) = 0
        \<and> q \<notin> set (files_read (GeminiTextProvider_generate e options))"
    using generate_missing_file[of q options e] by blast
  from png gif_unsupported other missing show ?thesis by blast
qed


theorem C4_witness_gif:
  "getMimeType ''photo.PNG'' = Inr ''image/png''
   \<and> getMimeType ''anim.gif'' = Inl gif_error
   \<and> \<not> begins_with_category (message gif_error)
   \<and> text_outcome (GeminiTextProvider_generate files_env gif_request) = Inl gif_error
   \<and> text_vendor_calls (GeminiTextProvider_generate files_env gif_request) = 0
   \<and> CallToolRequest_handler files_env gif_call = Some (error_result (''Error: '' @ message gif_error))
   \<and> text_outcome (GeminiTextProvider_generate quiet_env gif_request) =
       Inl (new_Error ''File not found: anim.gif'')
   \<and> files_read (GeminiTextProvider_generate quiet_env gif_request) = []"
proof -
  have png: "toLowerCase (extname ''photo.PNG'') = ''.png''" by code_simp
  have gif: "getMimeType ''anim.gif'' = Inl gif_error" by code_simp
  have run: "text_outcome (GeminiTextProvider_generate files_env gif_request) = Inl gif_error
     \<and> text_vendor_calls (GeminiTextProvider_generate files_env gif_request) = 0"
    by code_simp
  have call: "CallToolRequest_handler files_env gif_call =
      Some (error_result (''Error: '' @ message gif_error))"
    by code_simp
  have missing: "text_outcome (GeminiTextProvider_generate quiet_env gif_request) =
       Inl (new_Error ''File not found: anim.gif'')
     \<and> files_read (GeminiTextProvider_generate quiet_env gif_request) = []"
    by code_simp
  have ext: "map_of SUPPORTED_MIME_TYPES (toLowerCase (extname ''anim.gif'')) = None"
    by code_simp
  from C4_attachment_resolver[of "''photo.PNG''"] png
  have a: "getMimeType ''photo.PNG'' = Inr ''image/png''" by blast
  from C4_attachment_resolver[of "''anim.gif''"] ext gif
  have b: "\<not> begins_with_category (message gif_error)" by auto
  from a b gif run call missing show ?thesis by blast
qed

section \<open>The image provider\<close>

lemma maximum_not_category: "\<not> begins_with_category (''Maximum '' @ rest)"
  by (simp add: begins_with_category_def ERROR_CATEGORIES_def)

lemma invalid_not_category: "\<not> begins_with_category (''Invalid aspect ratio '' @ rest)"
  by (simp add: begins_with_category_def ERROR_CATEGORIES_def)

text \<open>
  C5, as far as the code goes. A request with more reference images than the cap of the
  selected model (3 for nano-banana, 14 for nano-banana-pro) is rejected with no vendor
  call and no file-system call. The message of the rejection carries no category token,
  and this is where the code departs from the claim: when the aspect ratio is absent or
  valid the message is \<^verbatim>\<open>Maximum N reference images allowed for MODEL\<close>.
\<close>

theorem C5_reference_image_cap:
  assumes "length (or_default (referenceImages options) [])
             > MAX_REFERENCE_IMAGES (or_default (image_model options) NanoBanana)"
  shows "(\<exists>err. image_outcome (GeminiImageProvider_generate e options) = Inl err
              \<and> \<not> begins_with_category (message err))
     \<and> image_vendor_calls (GeminiImageProvider_generate e options) = 0
     \<and> fs_ops (GeminiImageProvider_generate e options) = []
     \<and> ((truthy (aspectRatio options) \<longrightarrow>
            or_default (aspectRatio options) [] \<in> set VALID_ASPECT_RATIOS) \<longrightarrow>
          image_outcome (GeminiImageProvider_generate e options) =
            Inl (new_Error (''Maximum ''
                   @ string_of_nat (MAX_REFERENCE_IMAGES (or_default (image_model options) NanoBanana))
                   @ '' reference images allowed for ''
                   @ image_model_name (or_default (image_model options) NanoBanana))))
     \<and> MAX_REFERENCE_IMAGES NanoBanana = 3 \<and> MAX_REFERENCE_IMAGES NanoBananaPro = 14"
  using assms maximum_not_category invalid_not_category
  by (auto simp: GeminiImageProvider_generate_def Let_def new_Error_def simp del: append_assoc)

theorem C5_witness_four_references:
  "image_outcome (GeminiImageProvider_generate quiet_env four_references) =
     Inl (new_Error ''Maximum 3 reference images allowed for nano-banana'')
   \<and> image_vendor_calls (GeminiImageProvider_generate quiet_env four_references) = 0
   \<and> \<not> begins_with_category ''Maximum 3 reference images allowed for nano-banana''
   \<and> CallToolRequest_handler quiet_env four_references_call =
       Some (error_result ''Error: Maximum 3 reference images allowed for nano-banana'')"
proof -
  have n: "length (or_default (referenceImages four_references) [])
             > MAX_REFERENCE_IMAGES (or_default (image_model four_references) NanoBanana)"
    by code_simp
  have out: "image_outcome (GeminiImageProvider_generate quiet_env four_references) =
     Inl (new_Error ''Maximum 3 reference images allowed for nano-banana'')"
    by code_simp
  have call: "CallToolRequest_handler quiet_env four_references_call =
       Some (error_result ''Error: Maximum 3 reference images allowed for nano-banana'')"
    by code_simp
  from C5_reference_image_cap[OF n, of quiet_env] out call show ?thesis
    by (auto simp: new_Error_def)
qed

lemma save_image_no_image:
  "\<not> truthy (scan_candidates (candidates response) None) \<Longrightarrow>
     fs_ops (save_image e options m response calls) = []"
  by (simp add: save_image_def)

lemma save_image_with_image:
  assumes "scan_candidates (candidates response) None = Some d" and "d \<noteq> []"
  shows "fs_ops (save_image e options m response calls)
         \<in> {[Mkdir (dirname (outputPath options))],
            [WriteFile (outputPath options) d],
            [Mkdir (dirname (outputPath options)), WriteFile (outputPath options) d]}"
proof -
  let ?dir = "dirname (outputPath options)"
  have t: "truthy (Some d)" using assms(2) by (simp add: truthy_def)
  show ?thesis
  proof (cases "?dir \<noteq> [] \<and> \<not> existsSync e ?dir")
    case True
    then have c: "(?dir \<noteq> [] \<and> \<not> existsSync e ?dir) = True" by simp
    show ?thesis
    proof (cases "mkdirSync e ?dir")
      case None
      show ?thesis
        by (cases "writeFileSync e (outputPath options) d")
           (simp_all add: save_image_def Let_def or_default_def assms(1) t c None)
    next
      case (Some err)
      show ?thesis
        by (simp add: save_image_def Let_def or_default_def assms(1) t c Some)
    qed
  next
    case False
    then have c: "(?dir \<noteq> [] \<and> \<not> existsSync e ?dir) = False" by simp
    show ?thesis
      by (cases "writeFileSync e (outputPath options) d")
         (simp_all add: save_image_def Let_def or_default_def assms(1) t c)
  qed
qed

lemma save_image_ops:
  assumes "fs_ops (save_image e options m response calls) \<noteq> []"
  shows "\<exists>d. scan_candidates (candidates response) None = Some d \<and> d \<noteq> []
     \<and> fs_ops (save_image e options m response calls)
         \<in> {[Mkdir (dirname (outputPath options))],
            [WriteFile (outputPath options) d],
            [Mkdir (dirname (outputPath options)), WriteFile (outputPath options) d]}"
proof -
  from assms save_image_no_image[of response e options m calls]
  have "truthy (scan_candidates (candidates response) None)" by blast
  then obtain d where d: "scan_candidates (candidates response) None = Some d" "d \<noteq> []"
    by (auto simp: truthy_def split: option.splits)
  from save_image_with_image[OF d] d show ?thesis by blast
qed

lemma save_image_failure_no_ops:
  assumes mk: "\<forall>p. mkdirSync e p = None" and wr: "\<forall>p d. writeFileSync e p d = None"
    and fail: "image_outcome (save_image e options m response calls) = Inl err"
  shows "fs_ops (save_image e options m response calls) = []"
proof (cases "truthy (scan_candidates (candidates response) None)")
  case False
  then show ?thesis by (rule save_image_no_image)
next
  case True
  have m: "\<And>p. mkdirSync e p = None" using mk by simp
  have w: "\<And>p d. writeFileSync e p d = None" using wr by simp
  have "\<exists>r. image_outcome (save_image e options m response calls) = Inr r"
    by (simp add: save_image_def Let_def True m w)
  with fail show ?thesis by simp
qed

lemma image_generate_rejected:
  assumes "\<not> image_preflight_ok options"
  shows "fs_ops (GeminiImageProvider_generate e options) = []
     \<and> image_vendor_calls (GeminiImageProvider_generate e options) = 0"
proof (cases "truthy (aspectRatio options)
        \<and> or_default (aspectRatio options) [] \<notin> set VALID_ASPECT_RATIOS")
  case True
  then have c1: "(truthy (aspectRatio options)
        \<and> or_default (aspectRatio options) [] \<notin> set VALID_ASPECT_RATIOS) = True" by simp
  show ?thesis by (simp add: GeminiImageProvider_generate_def Let_def c1)
next
  case False
  then have c1: "(truthy (aspectRatio options)
        \<and> or_default (aspectRatio options) [] \<notin> set VALID_ASPECT_RATIOS) = False" by simp
  from assms False have c2: "(MAX_REFERENCE_IMAGES (or_default (image_model options) NanoBanana)
        < length (or_default (referenceImages options) [])) = True"
    by (auto simp: image_preflight_ok_def)
  show ?thesis by (simp add: GeminiImageProvider_generate_def Let_def c1 c2)
qed

lemma image_generate_accepted:
  assumes "image_preflight_ok options"
  shows "GeminiImageProvider_generate e options =
       (case outcome (vendor_run e (image_request options) IMAGE_DEFAULT_TIMEOUT_MS) of
          Inr response \<Rightarrow>
            save_image e options (or_default (image_model options) NanoBanana) response
              (invocations (vendor_run e (image_request options) IMAGE_DEFAULT_TIMEOUT_MS))
        | Inl error \<Rightarrow>
            \<lparr>image_outcome = Inl (image_catch error),
             image_vendor_calls = invocations (vendor_run e (image_request options) IMAGE_DEFAULT_TIMEOUT_MS),
             fs_ops = []\<rparr>)"
proof -
  from assms have c1: "(truthy (aspectRatio options)
        \<and> or_default (aspectRatio options) [] \<notin> set VALID_ASPECT_RATIOS) = False"
    by (auto simp: image_preflight_ok_def)
  from assms have c2: "(MAX_REFERENCE_IMAGES (or_default (image_model options) NanoBanana)
        < length (or_default (referenceImages options) [])) = False"
    by (auto simp: image_preflight_ok_def)
  show ?thesis
    by (simp add: GeminiImageProvider_generate_def Let_def c1 c2)
qed

text \<open>
  C10. \<^verbatim>\<open>GeminiImageProvider.generate\<close> calls \<^verbatim>\<open>mkdirSync\<close> and \<^verbatim>\<open>writeFileSync\<close> only after
  the pre-flight checks have passed, the vendor call has returned a response and a
  non-empty inline image payload has been extracted from it; the directory, if made, is
  made before the write. Hence every failure raised before the write step (a validation
  failure, a vendor failure or timeout, a response with no image data) leaves the file
  system untouched: when neither \<^verbatim>\<open>mkdirSync\<close> nor \<^verbatim>\<open>writeFileSync\<close> throws, a failed call
  has made no file-system call.
\<close>

theorem C10_write_after_extraction:
  "(fs_ops (GeminiImageProvider_generate e options) \<noteq> [] \<longrightarrow>
      image_preflight_ok options
      \<and> (\<exists>response d.
            outcome (vendor_run e (image_request options) IMAGE_DEFAULT_TIMEOUT_MS) = Inr response
            \<and> scan_candidates (candidates response) None = Some d \<and> d \<noteq> []
            \<and> fs_ops (GeminiImageProvider_generate e options)
                \<in> {[Mkdir (dirname (outputPath options))],
                   [WriteFile (outputPath options) d],
                   [Mkdir (dirname (outputPath options)), WriteFile (outputPath options) d]}))
   \<and> ((\<forall>p. mkdirSync e p = None) \<and> (\<forall>p d. writeFileSync e p d = None)
        \<and> (\<exists>err. image_outcome (GeminiImageProvider_generate e options) = Inl err) \<longrightarrow>
      fs_ops (GeminiImageProvider_generate e options) = [])"
proof (intro conjI impI)
  assume ops: "fs_ops (GeminiImageProvider_generate e options) \<noteq> []"
  with image_generate_rejected[of options e] show pre: "image_preflight_ok options" by blast
  note g = image_generate_accepted[OF pre, of e]
  from ops obtain response where
    r: "outcome (vendor_run e (image_request options) IMAGE_DEFAULT_TIMEOUT_MS) = Inr response"
    unfolding g by (cases "outcome (vendor_run e (image_request options) IMAGE_DEFAULT_TIMEOUT_MS)") simp_all
  from ops have "fs_ops (save_image e options (or_default (image_model options) NanoBanana) response
        (invocations (vendor_run e (image_request options) IMAGE_DEFAULT_TIMEOUT_MS))) \<noteq> []"
    unfolding g r by simp
  from save_image_ops[OF this] r
  show "\<exists>response d.
            outcome (vendor_run e (image_request options) IMAGE_DEFAULT_TIMEOUT_MS) = Inr response
            \<and> scan_candidates (candidates response) None = Some d \<and> d \<noteq> []
            \<and> fs_ops (GeminiImageProvider_generate e options)
                \<in> {[Mkdir (dirname (outputPath options))],
                   [WriteFile (outputPath options) d],
                   [Mkdir (dirname (outputPath options)), WriteFile (outputPath options) d]}"
    unfolding g r by auto
next
  assume h: "(\<forall>p. mkdirSync e p = None) \<and> (\<forall>p d. writeFileSync e p d = None)
        \<and> (\<exists>err. image_outcome (GeminiImageProvider_generate e options) = Inl err)"
  then obtain err where fail: "image_outcome (GeminiImageProvider_generate e options) = Inl err"
    by blast
  show "fs_ops (GeminiImageProvider_generate e options) = []"
  proof (cases "image_preflight_ok options")
    case False
    with image_generate_rejected[of options e] show ?thesis by blast
  next
    case True
    note g = image_generate_accepted[OF True, of e]
    show ?thesis
    proof (cases "outcome (vendor_run e (image_request options) IMAGE_DEFAULT_TIMEOUT_MS)")
      case (Inl error)
      then show ?thesis unfolding g by simp
    next
      case (Inr response)
      from fail have "image_outcome (save_image e options (or_default (image_model options) NanoBanana)
          response (invocations (vendor_run e (image_request options) IMAGE_DEFAULT_TIMEOUT_MS))) = Inl err"
        unfolding g Inr by simp
      from save_image_failure_no_ops[OF _ _ this] h show ?thesis unfolding g Inr by simp
    qed
  qed
qed

lemma image_timeout_error:
  "timeout_error IMAGE_DEFAULT_TIMEOUT_MS =
     new_Error ''TIMEOUT: Operation timed out after 180000ms''"
  by (simp add: timeout_error_def IMAGE_DEFAULT_TIMEOUT_MS_def string_of_nat.simps digit_char_def)

lemma image_timeout_not_retryable:
  "\<not> isRetryableError (timeout_error IMAGE_DEFAULT_TIMEOUT_MS)
       [''RATE_LIMIT'', ''429'', ''503'', ''502'', ''ECONNRESET'', ''ETIMEDOUT'']"
  unfolding image_timeout_error by code_simp

lemma image_timeout_caught:
  "image_catch (timeout_error IMAGE_DEFAULT_TIMEOUT_MS) =
     new_Error ''TIMEOUT: Request timed out. The image generation may be taking too long.''"
  unfolding image_timeout_error by code_simp

lemma cat_preflight_ok: "image_preflight_ok (image_options ''a cat'' ''/tmp/out/cat.png'')"
  by code_simp

lemma painted_saved:
  "fs_ops (save_image painter_env (image_options ''a cat'' ''/tmp/out/cat.png'') NanoBanana painted calls) =
     [Mkdir ''/tmp/out'', WriteFile ''/tmp/out/cat.png'' ''iVBORw0KGgo='']"
  by code_simp

theorem C10_witness_timeout_and_success:
  "image_outcome (GeminiImageProvider_generate quiet_env (image_options ''a cat'' ''/tmp/out/cat.png'')) =
     Inl (new_Error ''TIMEOUT: Request timed out. The image generation may be taking too long.'')
   \<and> fs_ops (GeminiImageProvider_generate quiet_env (image_options ''a cat'' ''/tmp/out/cat.png'')) = []
   \<and> fs_ops (GeminiImageProvider_generate painter_env (image_options ''a cat'' ''/tmp/out/cat.png'')) =
       [Mkdir ''/tmp/out'', WriteFile ''/tmp/out/cat.png'' ''iVBORw0KGgo='']
   \<and> scan_candidates (candidates painted) None = Some ''iVBORw0KGgo=''
   \<and> image_preflight_ok (image_options ''a cat'' ''/tmp/out/cat.png'')"
proof -
  let ?o = "image_options ''a cat'' ''/tmp/out/cat.png''"
  have "snd (withTimeout (generateContent quiet_env (image_request ?o) 0) IMAGE_DEFAULT_TIMEOUT_MS) =
      Inl (timeout_error IMAGE_DEFAULT_TIMEOUT_MS)"
    by (simp add: quiet_env_def withTimeout_def)
  from vendor_run_once_failure[OF this image_timeout_not_retryable]
  have fail: "image_outcome (GeminiImageProvider_generate quiet_env ?o) =
     Inl (new_Error ''TIMEOUT: Request timed out. The image generation may be taking too long.'')"
    by (simp add: image_generate_accepted[OF cat_preflight_ok] image_timeout_caught)
  have cat_model: "or_default (image_model ?o) NanoBanana = NanoBanana"
    by (simp add: image_options_def or_default_def)
  have quiet: "(\<forall>p. mkdirSync quiet_env p = None) \<and> (\<forall>p d. writeFileSync quiet_env p d = None)"
    by (simp add: quiet_env_def)
  have "snd (withTimeout (generateContent painter_env (image_request ?o) 0) IMAGE_DEFAULT_TIMEOUT_MS) =
      Inr painted"
    by (simp add: painter_env_def quiet_env_def withTimeout_def IMAGE_DEFAULT_TIMEOUT_MS_def
        setTimeout_delay_def TIMEOUT_MAX_def)
  from vendor_run_once_success[OF this]
  have ops: "fs_ops (GeminiImageProvider_generate painter_env ?o) =
       [Mkdir ''/tmp/out'', WriteFile ''/tmp/out/cat.png'' ''iVBORw0KGgo='']"
    by (simp add: image_generate_accepted[OF cat_preflight_ok] painted_saved cat_model)
  have scan: "scan_candidates (candidates painted) None = Some ''iVBORw0KGgo=''"
    by code_simp
  from C10_write_after_extraction[of quiet_env ?o] fail quiet
  have a: "fs_ops (GeminiImageProvider_generate quiet_env ?o) = []" by blast
  from C10_write_after_extraction[of painter_env ?o] ops
  have b: "image_preflight_ok ?o" by simp
  from fail a ops scan b show ?thesis by blast
qed


section \<open>The research poll loop\<close>

lemma poll_running_step:
  "still_running e i t s k \<Longrightarrow>
     pollForCompletion e i t p s k = pollForCompletion e i t p s (Suc k)"
  by (subst pollForCompletion.simps)
     (auto simp: still_running_def Let_def split: sum.splits poll_http.splits)

lemma poll_skip:
  "\<forall>j<n. still_running e i t s (k + j) \<Longrightarrow>
     pollForCompletion e i t p s k = pollForCompletion e i t p s (k + n)"
proof (induction n arbitrary: k)
  case 0
  then show ?case by simp
next
  case (Suc n)
  from Suc.prems have first: "still_running e i t s k" by (metis add.right_neutral zero_less_Suc)
  have "\<forall>j<n. still_running e i t s (Suc k + j)"
  proof (intro allI impI)
    fix j assume "j < n"
    then have "Suc j < Suc n" by simp
    with Suc.prems have "still_running e i t s (k + Suc j)" by blast
    then show "still_running e i t s (Suc k + j)" by simp
  qed
  from Suc.IH[OF this] poll_running_step[OF first, of p] show ?case by simp
qed


lemma poll_completed_round:
  assumes "Date_now e (Suc k) - s \<le> t"
    and "fetch_poll e i k = Inr (PollOk (Inr d))"
    and "interaction_status d = ''completed''"
  shows "pollForCompletion e i t p s k =
       Some (if output_text d = []
             then Inl (new_Error ''API_ERROR: Research completed but no output text found'')
             else Inr \<lparr>poll_text = output_text d, poll_status = ''completed'',
                       poll_model = ''deep-research''\<rparr>, k)"
  using assms by (subst pollForCompletion.simps) (simp add: Let_def)

lemma kept_outputs:
  "map (\<lambda>t. or_default t []) (filter truthy outs) = [t. Some t \<leftarrow> outs, t \<noteq> []]"
  by (induction outs) (auto simp: truthy_def or_default_def split: option.splits)

lemma output_text_fragments: "output_text d = join (newline @ newline) (fragments d)"
  by (simp add: output_text_def fragments_def kept_outputs split: option.splits)

lemma join_empty_iff: "[] \<notin> set xs \<Longrightarrow> join sep xs = [] \<longleftrightarrow> xs = []"
  by (induction sep xs rule: join.induct) auto

lemma fragments_nonempty: "[] \<notin> set (fragments d)"
  by (auto simp: fragments_def split: option.splits)

lemma output_text_empty_iff: "output_text d = [] \<longleftrightarrow> fragments d = []"
  by (simp add: output_text_fragments join_empty_iff[OF fragments_nonempty])

lemma poll_completed:
  assumes "\<forall>j<k. still_running e i t s j"
    and "Date_now e (Suc k) - s \<le> t"
    and "fetch_poll e i k = Inr (PollOk (Inr d))"
    and "interaction_status d = ''completed''"
  shows "pollForCompletion e i t p s 0 =
       Some (if fragments d = []
             then Inl (new_Error ''API_ERROR: Research completed but no output text found'')
             else Inr \<lparr>poll_text = join (newline @ newline) (fragments d),
                       poll_status = ''completed'', poll_model = ''deep-research''\<rparr>, k)"
proof -
  from assms(1) have "\<forall>j<k. still_running e i t s (0 + j)" by simp
  from poll_skip[OF this, of p]
  have "pollForCompletion e i t p s 0 = pollForCompletion e i t p s k" by simp
  also note poll_completed_round[OF assms(2,3,4), of p]
  finally show ?thesis
    by (simp add: output_text_fragments join_empty_iff[OF fragments_nonempty])
qed


lemma blank_line: "newline @ newline = [CHR 0x0A, CHR 0x0A]"
  by (simp add: newline_def)

lemma research_of_poll:
  assumes "startResearch e (research_query options) = Inr i"
    and "pollForCompletion e i
           (or_default (research_timeoutMs options) RESEARCH_DEFAULT_TIMEOUT_MS)
           (or_default (research_pollIntervalMs options) DEFAULT_POLL_INTERVAL_MS)
           (Date_now e 0) 0 = Some (r, k)"
  shows "research e options =
           Some (case r of
                   Inl err \<Rightarrow> Inl err
                 | Inr res \<Rightarrow>
                     Inr \<lparr>research_text = poll_text res, research_status = poll_status res,
                          research_model = poll_model res, interactionId = i,
                          durationMs = Date_now e (k + 2) - Date_now e 0\<rparr>)"
  using assms by (simp add: research_def Let_def split: sum.splits)

text \<open>
  C8. When the poll loop, after any number of rounds that leave the task running, observes
  the status \<^verbatim>\<open>completed\<close> within the budget, it returns the texts of the output
  fragments that are present and not empty, in order and separated by two line feeds (a
  blank line), and \<^verbatim>\<open>research\<close> returns that text; if no fragment is left (the aggregate
  is empty) both throw the \<^verbatim>\<open>API_ERROR\<close> saying that the research completed but no output
  text was found. In particular two non-empty fragments \<open>a\<close> and \<open>b\<close> come back as \<open>a\<close>,
  a blank line, \<open>b\<close>.
\<close>

theorem C8_research_completed:
  assumes "\<forall>j<k. still_running e i t s j"
    and "Date_now e (Suc k) - s \<le> t"
    and "fetch_poll e i k = Inr (PollOk (Inr d))"
    and "interaction_status d = ''completed''"
  shows "(\<forall>outs x xs. outputs d = Some outs \<and> [f. Some f \<leftarrow> outs, f \<noteq> []] = x # xs \<longrightarrow>
            pollForCompletion e i t p s 0 =
              Some (Inr \<lparr>poll_text = x @ concat (map ((@) [CHR 0x0A, CHR 0x0A]) xs),
                         poll_status = ''completed'', poll_model = ''deep-research''\<rparr>, k))
     \<and> (outputs d = None \<or> (\<exists>outs. outputs d = Some outs \<and> [f. Some f \<leftarrow> outs, f \<noteq> []] = []) \<longrightarrow>
            pollForCompletion e i t p s 0 =
              Some (Inl \<lparr>name = ''Error'',
                         message = ''API_ERROR: Research completed but no output text found''\<rparr>, k))
     \<and> (outputs d = Some [Some a, Some b] \<and> a \<noteq> [] \<and> b \<noteq> [] \<longrightarrow>
            pollForCompletion e i t p s 0 =
              Some (Inr \<lparr>poll_text = a @ [CHR 0x0A, CHR 0x0A] @ b,
                         poll_status = ''completed'', poll_model = ''deep-research''\<rparr>, k))
     \<and> (startResearch e (research_query options) = Inr i
          \<and> t = or_default (research_timeoutMs options) RESEARCH_DEFAULT_TIMEOUT_MS
          \<and> s = Date_now e 0 \<longrightarrow>
            (\<forall>outs x xs. outputs d = Some outs \<and> [f. Some f \<leftarrow> outs, f \<noteq> []] = x # xs \<longrightarrow>
               research e options =
                 Some (Inr \<lparr>research_text = x @ concat (map ((@) [CHR 0x0A, CHR 0x0A]) xs),
                            research_status = ''completed'', research_model = ''deep-research'',
                            interactionId = i, durationMs = Date_now e (k + 2) - Date_now e 0\<rparr>))
            \<and> (outputs d = None
                 \<or> (\<exists>outs. outputs d = Some outs \<and> [f. Some f \<leftarrow> outs, f \<noteq> []] = []) \<longrightarrow>
               research e options =
                 Some (Inl \<lparr>name = ''Error'',
                            message = ''API_ERROR: Research completed but no output text found''\<rparr>)))"
proof -
  have some: "pollForCompletion e i t q s 0 =
              Some (Inr \<lparr>poll_text = x @ concat (map ((@) [CHR 0x0A, CHR 0x0A]) xs),
                         poll_status = ''completed'', poll_model = ''deep-research''\<rparr>, k)"
    if "outputs d = Some outs" "[f. Some f \<leftarrow> outs, f \<noteq> []] = x # xs" for outs x xs q
  proof -
    from that have "fragments d = x # xs" by (simp add: fragments_def)
    with poll_completed[OF assms, of q] show ?thesis
      by (simp add: join_concat blank_line)
  qed
  have none: "pollForCompletion e i t q s 0 =
              Some (Inl \<lparr>name = ''Error'',
                         message = ''API_ERROR: Research completed but no output text found''\<rparr>, k)"
    if "outputs d = None \<or> (\<exists>outs. outputs d = Some outs \<and> [f. Some f \<leftarrow> outs, f \<noteq> []] = [])"
    for q
  proof -
    from that have "fragments d = []" by (auto simp: fragments_def)
    with poll_completed[OF assms, of q] show ?thesis
      by (simp add: new_Error_def)
  qed
  have two: "pollForCompletion e i t p s 0 =
              Some (Inr \<lparr>poll_text = a @ [CHR 0x0A, CHR 0x0A] @ b,
                         poll_status = ''completed'', poll_model = ''deep-research''\<rparr>, k)"
    if "outputs d = Some [Some a, Some b]" "a \<noteq> []" "b \<noteq> []"
  proof -
    from that have "[f. Some f \<leftarrow> [Some a, Some b], f \<noteq> []] = a # [b]" by simp
    from some[OF that(1) this, of p] show ?thesis by simp
  qed
  have res: "(\<forall>outs x xs. outputs d = Some outs \<and> [f. Some f \<leftarrow> outs, f \<noteq> []] = x # xs \<longrightarrow>
               research e options =
                 Some (Inr \<lparr>research_text = x @ concat (map ((@) [CHR 0x0A, CHR 0x0A]) xs),
                            research_status = ''completed'', research_model = ''deep-research'',
                            interactionId = i, durationMs = Date_now e (k + 2) - Date_now e 0\<rparr>))
            \<and> (outputs d = None
                 \<or> (\<exists>outs. outputs d = Some outs \<and> [f. Some f \<leftarrow> outs, f \<noteq> []] = []) \<longrightarrow>
               research e options =
                 Some (Inl \<lparr>name = ''Error'',
                            message = ''API_ERROR: Research completed but no output text found''\<rparr>))"
    if start: "startResearch e (research_query options) = Inr i"
      and t: "t = or_default (research_timeoutMs options) RESEARCH_DEFAULT_TIMEOUT_MS"
      and s: "s = Date_now e 0"
  proof (intro conjI allI impI)
    fix outs x xs
    assume "outputs d = Some outs \<and> [f. Some f \<leftarrow> outs, f \<noteq> []] = x # xs"
    then have "pollForCompletion e i t
        (or_default (research_pollIntervalMs options) DEFAULT_POLL_INTERVAL_MS) s 0 =
              Some (Inr \<lparr>poll_text = x @ concat (map ((@) [CHR 0x0A, CHR 0x0A]) xs),
                         poll_status = ''completed'', poll_model = ''deep-research''\<rparr>, k)"
      using some by blast
    from research_of_poll[OF start this[unfolded t s]]
    show "research e options =
                 Some (Inr \<lparr>research_text = x @ concat (map ((@) [CHR 0x0A, CHR 0x0A]) xs),
                            research_status = ''completed'', research_model = ''deep-research'',
                            interactionId = i, durationMs = Date_now e (k + 2) - Date_now e 0\<rparr>)"
      by simp
  next
    assume "outputs d = None
        \<or> (\<exists>outs. outputs d = Some outs \<and> [f. Some f \<leftarrow> outs, f \<noteq> []] = [])"
    from none[OF this, of "or_default (research_pollIntervalMs options) DEFAULT_POLL_INTERVAL_MS"]
    have "pollForCompletion e i t
        (or_default (research_pollIntervalMs options) DEFAULT_POLL_INTERVAL_MS) s 0 =
              Some (Inl \<lparr>name = ''Error'',
                         message = ''API_ERROR: Research completed but no output text found''\<rparr>, k)" .
    from research_of_poll[OF start this[unfolded t s]]
    show "research e options =
                 Some (Inl \<lparr>name = ''Error'',
                            message = ''API_ERROR: Research completed but no output text found''\<rparr>)"
      by simp
  qed
  from some[of _ _ _ p] none[of p] two res show ?thesis by blast
qed

lemma three_polls_running: "\<forall>j<2. still_running three_polls_env ''task-1'' 1800000 0 j"
proof (intro allI impI)
  fix j :: nat assume "j < 2"
  then consider "j = 0" | "j = 1" by linarith
  then show "still_running three_polls_env ''task-1'' 1800000 0 j"
    by cases (simp_all add: still_running_def three_polls_env_def quiet_env_def interaction_def)
qed

theorem C8_witness_three_polls:
  "research three_polls_env (research_options ''quantum error correction'' 1800000) =
     Some (Inr \<lparr>research_text = ''Findings.'' @ [CHR 0x0A, CHR 0x0A] @ ''Sources.'',
                research_status = ''completed'', research_model = ''deep-research'',
                interactionId = ''task-1'', durationMs = 40000\<rparr>)
   \<and> research five_outputs_env (research_options ''quantum error correction'' 1800000) =
     Some (Inr \<lparr>research_text = ''A'' @ [CHR 0x0A, CHR 0x0A] @ ''B'' @ [CHR 0x0A, CHR 0x0A] @ ''C'',
                research_status = ''completed'', research_model = ''deep-research'',
                interactionId = ''task-1'', durationMs = 20000\<rparr>)
   \<and> research no_output_env (research_options ''quantum error correction'' 1800000) =
     Some (Inl \<lparr>name = ''Error'',
                message = ''API_ERROR: Research completed but no output text found''\<rparr>)"
proof -
  let ?o = "research_options ''quantum error correction'' 1800000"
  have t: "1800000 = or_default (research_timeoutMs ?o) RESEARCH_DEFAULT_TIMEOUT_MS"
    by (simp add: research_options_def or_default_def)
  have st: "interaction_status (interaction ''completed'' outs) = ''completed''" for outs
    by (simp add: interaction_def)
  have none: "\<forall>j<0. still_running e ''task-1'' 1800000 0 j" for e by simp

  let ?d3 = "interaction ''completed'' (Some [Some ''Findings.'', Some ''Sources.''])"
  have b3: "Date_now three_polls_env (Suc 2) - 0 \<le> 1800000"
    by (simp add: three_polls_env_def quiet_env_def)
  have p3: "fetch_poll three_polls_env ''task-1'' 2 = Inr (PollOk (Inr ?d3))"
    by (simp add: three_polls_env_def quiet_env_def)
  have s3: "startResearch three_polls_env (research_query ?o) = Inr ''task-1''"
    by (simp add: startResearch_def three_polls_env_def quiet_env_def interaction_def truthy_def
        or_default_def)
  have z3: "0 = Date_now three_polls_env 0" by (simp add: three_polls_env_def quiet_env_def)
  have o3: "outputs ?d3 = Some [Some ''Findings.'', Some ''Sources.'']
      \<and> [f. Some f \<leftarrow> [Some ''Findings.'', Some ''Sources.''], f \<noteq> []] = ''Findings.'' # [''Sources.'']"
    by (simp add: interaction_def)
  have dur3: "Date_now three_polls_env (2 + 2) - Date_now three_polls_env 0 = 40000"
    by (simp add: three_polls_env_def quiet_env_def)
  from C8_research_completed[OF three_polls_running b3 p3 st, where options = ?o] s3 t z3 o3
  have r3: "research three_polls_env ?o =
     Some (Inr \<lparr>research_text = ''Findings.'' @ concat (map ((@) [CHR 0x0A, CHR 0x0A]) [''Sources.'']),
                research_status = ''completed'', research_model = ''deep-research'',
                interactionId = ''task-1'',
                durationMs = Date_now three_polls_env (2 + 2) - Date_now three_polls_env 0\<rparr>)"
    by blast

  let ?d5 = "interaction ''completed'' (Some [Some ''A'', None, Some [], Some ''B'', Some ''C''])"
  have b5: "Date_now five_outputs_env (Suc 0) - 0 \<le> 1800000"
    by (simp add: five_outputs_env_def quiet_env_def)
  have p5: "fetch_poll five_outputs_env ''task-1'' 0 = Inr (PollOk (Inr ?d5))"
    by (simp add: five_outputs_env_def quiet_env_def)
  have s5: "startResearch five_outputs_env (research_query ?o) = Inr ''task-1''"
    by (simp add: startResearch_def five_outputs_env_def quiet_env_def interaction_def truthy_def
        or_default_def)
  have z5: "0 = Date_now five_outputs_env 0" by (simp add: five_outputs_env_def quiet_env_def)
  have o5: "outputs ?d5 = Some [Some ''A'', None, Some [], Some ''B'', Some ''C'']
      \<and> [f. Some f \<leftarrow> [Some ''A'', None, Some [], Some ''B'', Some ''C''], f \<noteq> []] = ''A'' # [''B'', ''C'']"
    by (simp add: interaction_def)
  have dur5: "Date_now five_outputs_env (0 + 2) - Date_now five_outputs_env 0 = 20000"
    by (simp add: five_outputs_env_def quiet_env_def)
  from C8_research_completed[OF none b5 p5 st, where options = ?o] s5 t z5 o5
  have r5: "research five_outputs_env ?o =
     Some (Inr \<lparr>research_text = ''A'' @ concat (map ((@) [CHR 0x0A, CHR 0x0A]) [''B'', ''C'']),
                research_status = ''completed'', research_model = ''deep-research'',
                interactionId = ''task-1'',
                durationMs = Date_now five_outputs_env (0 + 2) - Date_now five_outputs_env 0\<rparr>)"
    by blast

  let ?d0 = "interaction ''completed'' (Some [None, Some []])"
  have b0: "Date_now no_output_env (Suc 0) - 0 \<le> 1800000"
    by (simp add: no_output_env_def quiet_env_def)
  have p0: "fetch_poll no_output_env ''task-1'' 0 = Inr (PollOk (Inr ?d0))"
    by (simp add: no_output_env_def quiet_env_def)
  have s0: "startResearch no_output_env (research_query ?o) = Inr ''task-1''"
    by (simp add: startResearch_def no_output_env_def quiet_env_def interaction_def truthy_def
        or_default_def)
  have z0: "0 = Date_now no_output_env 0" by (simp add: no_output_env_def quiet_env_def)
  have o0: "\<exists>outs. outputs ?d0 = Some outs \<and> [f. Some f \<leftarrow> outs, f \<noteq> []] = []"
    by (simp add: interaction_def)
  from C8_research_completed[OF none b0 p0 st, where options = ?o] s0 t z0 o0
  have r0: "research no_output_env ?o =
     Some (Inl \<lparr>name = ''Error'',
                message = ''API_ERROR: Research completed but no output text found''\<rparr>)"
    by blast
  from r3 r5 r0 dur3 dur5 show ?thesis by simp
qed




end
